theory Spec2Isabelle
  imports Main "HOL-Library.Sublist" "HOL-Library.Multiset"
begin

section \<open>The scaffolder action \<open>github:team:create\<close>\<close>

text \<open>
  A shallow embedding of
  \<^verbatim>\<open>plugins/scaffolder-backend-module-github-team/src/actions/githubTeam.ts\<close>:
  the credential resolver \<open>getOctokitOptionsForOrg\<close> and the action's \<open>handler\<close>.

  The handler talks to four collaborators that are not part of the repository: the
  integration registry, the credentials provider, the Octokit client and the framework's
  \<open>output\<close> callback. Each call to one of them is recorded, in program order, in a trace;
  the collaborators that answer over the network (credentials provider, Octokit) are
  functions of an abstract world \<open>'w\<close> that they may change, so an answer may depend on
  every earlier call. A JavaScript exception is a value \<open>Inl\<close> of a sum type.

  Not modelled: the calls to \<open>ctx.logger\<close> themselves; no statement below is about a log
  line. What is modelled of a log line is the evaluation of its template literal where
  that can throw: the three \<open>catch\<close> blocks interpolate the caught value (lines 159, 209
  and 233), and converting a value to a string can raise.
  The logging sink, the \<open>output\<close> callback, the constructor \<open>new Octokit\<close> and
  \<open>DefaultGithubCredentialsProvider.fromIntegrations\<close> are taken never to throw; the
  integration lookup \<open>byHost\<close> is a pure function of the host. Strings are byte strings
  (UTF-8), so a lone UTF-16 surrogate, on which JavaScript's \<open>encodeURIComponent\<close> raises
  \<open>URIError\<close>, is not a value of the model.
\<close>

subsection \<open>Values\<close>

text \<open>
  What a \<open>catch (error)\<close> clause can receive:
  \<^item> \<open>JsError name message\<close>: an instance of \<open>Error\<close> with that name and message, which
    converts to a string as \<open>Error.prototype.toString\<close> does;
  \<^item> \<open>NonError text\<close>: a value that is not an instance of \<open>Error\<close> and converts to the
    string \<open>text\<close> (a string, a number, \<open>null\<close>, \<open>undefined\<close>, a plain object);
  \<^item> \<open>Unprintable message raised\<close>: a value whose conversion to a string raises \<open>raised\<close>
    (a \<open>Symbol\<close> and an object without prototype raise a \<open>TypeError\<close>; an object whose
    \<open>toString\<close> throws raises what that throws). \<open>message\<close> is its message when it is
    an instance of \<open>Error\<close> all the same, and \<open>None\<close> when it is not.
\<close>

datatype js_thrown =
  JsError string string
| NonError string
| Unprintable "string option" js_thrown

text \<open>The expression \<open>error instanceof Error ? error.message : 'Unknown error'\<close>.\<close>

fun thrown_message :: "js_thrown \<Rightarrow> string" where
  "thrown_message (JsError cls msg) = msg"
| "thrown_message (NonError text) = ''Unknown error''"
| "thrown_message (Unprintable message raised) =
     (case message of None \<Rightarrow> ''Unknown error'' | Some msg \<Rightarrow> msg)"

text \<open>The interpolation \<open>${error}\<close> of a template literal: the string, or what the
  conversion raises.\<close>

fun to_string :: "js_thrown \<Rightarrow> js_thrown + string" where
  "to_string (JsError cls msg) =
     Inr (if cls = [] then msg else if msg = [] then cls else cls @ '': '' @ msg)"
| "to_string (NonError text) = Inr text"
| "to_string (Unprintable message raised) = Inl raised"

text \<open>JavaScript truthiness of an optional string: \<open>undefined\<close> and \<open>''\<close> are falsy.\<close>

fun truthy :: "string option \<Rightarrow> bool" where
  "truthy None = False"
| "truthy (Some s) = (s \<noteq> [])"

datatype privacy = Closed | Secret

datatype role = Member | Maintainer

record member_spec =
  username :: string
  role :: "role option"

text \<open>The action's input; a field the schema marks optional is an \<open>option\<close>.  The schema
  requires \<open>organization\<close>, but the handler tests it, and the tests of the repository call
  the handler without it, so it is optional here too.\<close>

record input =
  organization :: "string option"
  teamName :: string
  description :: "string option"
  privacy :: "privacy option"
  members :: "member_spec list option"
  token :: "string option"

record github_integration_config =
  apiBaseUrl :: "string option"

record github_integration =
  config :: github_integration_config

text \<open>\<open>integrations.github.byHost\<close>\<close>

record scm_integration_registry =
  byHost :: "string \<Rightarrow> github_integration option"

record github_credentials =
  credentials_token :: "string option"

text \<open>\<open>getCredentials({url})\<close> of a \<open>GithubCredentialsProvider\<close>.\<close>

type_synonym 'w github_credentials_provider =
  "string \<Rightarrow> 'w \<Rightarrow> (js_thrown + github_credentials) \<times> 'w"

record octokit_options =
  auth :: string
  baseUrl :: "string option"
  previews :: "string list"
  request_timeout :: nat

record team =
  team_id :: int
  team_name :: string
  slug :: string
  html_url :: string

record team_response =
  data :: team

record create_params =
  create_org :: string
  create_name :: string
  create_description :: "string option"
  create_privacy :: privacy

record membership_params =
  membership_org :: string
  team_slug :: string
  membership_username :: string
  membership_role :: role

text \<open>The two methods of \<open>octokit.rest.teams\<close> that the handler calls.\<close>

record 'w octokit =
  teams_create :: "create_params \<Rightarrow> 'w \<Rightarrow> (js_thrown + team_response) \<times> 'w"
  teams_addOrUpdateMembershipForUserInOrg ::
    "membership_params \<Rightarrow> 'w \<Rightarrow> (js_thrown + unit) \<times> 'w"

text \<open>The imported library: the constructor \<open>new Octokit(options)\<close> and
  \<open>DefaultGithubCredentialsProvider.fromIntegrations\<close>.\<close>

record 'w library =
  Octokit :: "octokit_options \<Rightarrow> 'w octokit"
  fromIntegrations :: "scm_integration_registry \<Rightarrow> 'w github_credentials_provider"

text \<open>The argument of \<open>createGithubTeamCreateAction\<close>.\<close>

record 'w action_options =
  integrations :: scm_integration_registry
  githubCredentialsProvider :: "'w github_credentials_provider option"

record added_member =
  added_username :: string
  added_role :: role

record failed_member =
  failed_username :: string
  failed_role :: role
  failed_error :: string

record member_results =
  added :: "added_member list"
  failed :: "failed_member list"

datatype output_value =
  OutNumber int
| OutString string
| OutAdded "added_member list"
| OutFailed "failed_member list"

subsection \<open>The trace of calls to collaborators\<close>

datatype event =
  ByHost string
| FromIntegrations
| GetCredentials string
| NewOctokit octokit_options
| TeamsCreate create_params
| AddOrUpdateMembership membership_params
| Output string output_value

record 'w state =
  world :: 'w
  trace :: "event list"

definition emit :: "event \<Rightarrow> 'w state \<Rightarrow> 'w state" where
  "emit e s = s\<lparr>trace := trace s @ [e]\<rparr>"

subsection \<open>\<open>encodeURIComponent\<close>\<close>

text \<open>The characters that \<open>encodeURIComponent\<close> leaves alone: letters, digits and
  \<open>- _ . ! ~ * ' ( )\<close>.  Every other byte becomes \<open>%XX\<close> in upper-case hexadecimal.\<close>

definition uriUnreserved :: "char list" where
  "uriUnreserved =
     ''ABCDEFGHIJKLMNOPQRSTUVWXYZabcdefghijklmnopqrstuvwxyz0123456789-_.!~*()'' @ [CHR 0x27]"

definition hexDigit :: "nat \<Rightarrow> char" where
  "hexDigit n = ''0123456789ABCDEF'' ! (n mod 16)"

definition encodeByte :: "char \<Rightarrow> string" where
  "encodeByte c =
     (if c \<in> set uriUnreserved then [c]
      else [CHR ''%'', hexDigit (of_char c div 16), hexDigit (of_char c mod 16)])"

definition encodeURIComponent :: "string \<Rightarrow> string" where
  "encodeURIComponent s = concat (map encodeByte s)"

subsection \<open>\<open>getOctokitOptionsForOrg\<close> (lines 11 to 68)\<close>

record 'w org_options =
  opt_integrations :: scm_integration_registry
  opt_credentialsProvider :: "'w github_credentials_provider option"
  opt_token :: "string option"
  opt_host :: string
  opt_owner :: string

definition no_token_message :: "string \<Rightarrow> string \<Rightarrow> string" where
  "no_token_message host owner =
     ''No token available for host: '' @ host @ '', with owner '' @ owner @
     ''. Make sure GitHub App is installed on the organization.''"

definition getOctokitOptionsForOrg ::
  "'w library \<Rightarrow> 'w org_options \<Rightarrow> 'w state \<Rightarrow> (js_thrown + octokit_options) \<times> 'w state"
where
  "getOctokitOptionsForOrg lib options s =
     (let s1 = emit (ByHost (opt_host options)) s in
      case byHost (opt_integrations options) (opt_host options) of
        None \<Rightarrow>
          (Inl (JsError ''InputError'' (''No integration for host '' @ opt_host options)), s1)
      | Some integration \<Rightarrow>
          let integrationConfig = config integration in
          (case opt_token options of
             Some (c # cs) \<Rightarrow>
               (Inr \<lparr>auth = c # cs, baseUrl = apiBaseUrl integrationConfig,
                     previews = [''nebula-preview''], request_timeout = 60000\<rparr>, s1)
           | _ \<Rightarrow>
               if opt_owner options = [] then
                 (Inl (JsError ''InputError''
                    ''No organization/owner provided, which is required for GitHub App authentication''),
                  s1)
               else
                 let (githubCredentialsProvider, s2) =
                       (case opt_credentialsProvider options of
                          Some p \<Rightarrow> (p, s1)
                        | None \<Rightarrow>
                            (fromIntegrations lib (opt_integrations options),
                             emit FromIntegrations s1));
                     url = ''https://'' @ opt_host options @ ''/'' @
                             encodeURIComponent (opt_owner options);
                     s3 = emit (GetCredentials url) s2;
                     (r, w) = githubCredentialsProvider url (world s3);
                     s4 = s3\<lparr>world := w\<rparr>
                 in (case r of
                       Inl error \<Rightarrow> (Inl error, s4)
                     | Inr credentials \<Rightarrow>
                         (case credentials_token credentials of
                            Some (c # cs) \<Rightarrow>
                              (Inr \<lparr>auth = c # cs, baseUrl = apiBaseUrl integrationConfig,
                                    previews = [''nebula-preview''],
                                    request_timeout = 60000\<rparr>, s4)
                          | _ \<Rightarrow>
                              (Inl (JsError ''InputError''
                                 (no_token_message (opt_host options) (opt_owner options))),
                               s4)))))"

subsection \<open>The member loop (lines 190 to 212)\<close>

text \<open>\<open>member.role || 'member'\<close>\<close>

definition role_or_member :: "member_spec \<Rightarrow> role" where
  "role_or_member member = (case role member of None \<Rightarrow> Member | Some r \<Rightarrow> r)"

definition membership_call :: "string \<Rightarrow> team \<Rightarrow> member_spec \<Rightarrow> membership_params" where
  "membership_call org team member =
     \<lparr>membership_org = org, team_slug = slug team,
      membership_username = username member, membership_role = role_or_member member\<rparr>"

text \<open>
  The loop returns the two result sequences, or what escapes from it. Nothing in the
  \<open>try\<close> part escapes; in the \<open>catch\<close> part the entry is pushed to \<open>failed\<close> (line 204)
  and then the warning line interpolates \<open>error\<close> (line 209): when that conversion raises,
  the loop is left with what it raised, and the results so far are lost with it.
\<close>

fun add_members ::
  "'w octokit \<Rightarrow> string \<Rightarrow> team \<Rightarrow> member_spec list \<Rightarrow> member_results \<Rightarrow> 'w state \<Rightarrow>
     (js_thrown + member_results) \<times> 'w state"
where
  "add_members octokit org team [] memberResults s = (Inr memberResults, s)"
| "add_members octokit org team (member # rest) memberResults s =
     (let s1 = emit (AddOrUpdateMembership (membership_call org team member)) s;
          (r, w) = teams_addOrUpdateMembershipForUserInOrg octokit
                     (membership_call org team member) (world s1);
          s2 = s1\<lparr>world := w\<rparr>
      in case r of
           Inr ok \<Rightarrow>
             add_members octokit org team rest
               (memberResults\<lparr>added := added memberResults @
                  [\<lparr>added_username = username member, added_role = role_or_member member\<rparr>]\<rparr>)
               s2
         | Inl error \<Rightarrow>
             (case to_string error of
                Inl raised \<Rightarrow> (Inl raised, s2)
              | Inr text \<Rightarrow>
                  add_members octokit org team rest
                    (memberResults\<lparr>failed := failed memberResults @
                       [\<lparr>failed_username = username member,
                         failed_role = role_or_member member,
                         failed_error = thrown_message error\<rparr>]\<rparr>)
                    s2))"

subsection \<open>The body of the second \<open>try\<close> (lines 169 to 231)\<close>

definition privacy_or_closed :: "input \<Rightarrow> privacy" where
  "privacy_or_closed inp = (case privacy inp of None \<Rightarrow> Closed | Some p \<Rightarrow> p)"

definition create_call :: "string \<Rightarrow> input \<Rightarrow> create_params" where
  "create_call org inp =
     \<lparr>create_org = org, create_name = teamName inp,
      create_description = description inp, create_privacy = privacy_or_closed inp\<rparr>"

definition set_outputs :: "team \<Rightarrow> member_results \<Rightarrow> event list" where
  "set_outputs team memberResults =
     [Output ''teamId'' (OutNumber (team_id team)),
      Output ''teamUrl'' (OutString (html_url team)),
      Output ''teamSlug'' (OutString (slug team)),
      Output ''membersAdded'' (OutAdded (added memberResults)),
      Output ''membersFailed'' (OutFailed (failed memberResults))]"

definition create_team ::
  "'w octokit \<Rightarrow> string \<Rightarrow> input \<Rightarrow> 'w state \<Rightarrow> (js_thrown + unit) \<times> 'w state"
where
  "create_team octokit org inp s =
     (let s1 = emit (TeamsCreate (create_call org inp)) s;
          (r, w) = teams_create octokit (create_call org inp) (world s1);
          s2 = s1\<lparr>world := w\<rparr>
      in case r of
           Inl error \<Rightarrow> (Inl error, s2)
         | Inr teamResponse \<Rightarrow>
             let team = data teamResponse;
                 (added_or_raised, s3) =
                   (case members inp of
                      Some (m # ms) \<Rightarrow>
                        add_members octokit org team (m # ms) \<lparr>added = [], failed = []\<rparr> s2
                    | _ \<Rightarrow> (Inr \<lparr>added = [], failed = []\<rparr>, s2))
             in (case added_or_raised of
                   Inl raised \<Rightarrow> (Inl raised, s3)
                 | Inr memberResults \<Rightarrow>
                     (Inr (), s3\<lparr>trace := trace s3 @ set_outputs team memberResults\<rparr>)))"

subsection \<open>\<open>handler\<close> (lines 128 to 236)\<close>

definition authentication_failed_message :: "string \<Rightarrow> js_thrown \<Rightarrow> string" where
  "authentication_failed_message org error =
     ''Failed to authenticate with GitHub for organization '' @ [CHR 0x27] @ org @
     [CHR 0x27] @ '': '' @ thrown_message error"

text \<open>The argument of the call of \<open>getOctokitOptionsForOrg\<close> at lines 149 to 155.\<close>

definition resolver_options :: "'w action_options \<Rightarrow> input \<Rightarrow> string \<Rightarrow> 'w org_options" where
  "resolver_options options inp org =
     \<lparr>opt_integrations = integrations options,
      opt_credentialsProvider = githubCredentialsProvider options,
      opt_token = token inp, opt_host = ''github.com'', opt_owner = org\<rparr>"

text \<open>
  Each of the two \<open>catch\<close> blocks of the handler first interpolates \<open>error\<close> into the line
  it logs (lines 159 and 233) and then throws the wrapping \<open>Error\<close> (lines 160 and 234):
  when the conversion raises, what it raised leaves the handler instead.
\<close>

definition handler ::
  "'w library \<Rightarrow> 'w action_options \<Rightarrow> input \<Rightarrow> 'w \<Rightarrow> (js_thrown + unit) \<times> 'w state"
where
  "handler lib options inp w =
     (let s = \<lparr>world = w, trace = []\<rparr> in
      case organization inp of
        Some (c # cs) \<Rightarrow>
          (case getOctokitOptionsForOrg lib (resolver_options options inp (c # cs)) s of
             (Inl error, s1) \<Rightarrow>
               (case to_string error of
                  Inl raised \<Rightarrow> (Inl raised, s1)
                | Inr text \<Rightarrow>
                    (Inl (JsError ''Error'' (authentication_failed_message (c # cs) error)),
                     s1))
           | (Inr octokitOptions, s1) \<Rightarrow>
               let octokit = Octokit lib octokitOptions;
                   s2 = emit (NewOctokit octokitOptions) s1
               in (case create_team octokit (c # cs) inp s2 of
                     (Inl error, s3) \<Rightarrow>
                       (case to_string error of
                          Inl raised \<Rightarrow> (Inl raised, s3)
                        | Inr text \<Rightarrow>
                            (Inl (JsError ''Error''
                               (''GitHub team creation failed: '' @ thrown_message error)),
                             s3))
                   | (Inr done, s3) \<Rightarrow> (Inr (), s3)))
      | _ \<Rightarrow>
          (Inl (JsError ''Error'' ''Organization name is required but was not provided''), s))"

subsection \<open>Reading the trace\<close>

text \<open>The calls of one kind, in the order in which they were made.\<close>

definition host_lookups :: "event list \<Rightarrow> string list" where
  "host_lookups tr = concat (map (\<lambda>e. case e of ByHost h \<Rightarrow> [h] | _ \<Rightarrow> []) tr)"

definition credential_urls :: "event list \<Rightarrow> string list" where
  "credential_urls tr = concat (map (\<lambda>e. case e of GetCredentials u \<Rightarrow> [u] | _ \<Rightarrow> []) tr)"

definition clients :: "event list \<Rightarrow> octokit_options list" where
  "clients tr = concat (map (\<lambda>e. case e of NewOctokit opts \<Rightarrow> [opts] | _ \<Rightarrow> []) tr)"

definition create_calls :: "event list \<Rightarrow> create_params list" where
  "create_calls tr = concat (map (\<lambda>e. case e of TeamsCreate p \<Rightarrow> [p] | _ \<Rightarrow> []) tr)"

definition membership_calls :: "event list \<Rightarrow> membership_params list" where
  "membership_calls tr =
     concat (map (\<lambda>e. case e of AddOrUpdateMembership p \<Rightarrow> [p] | _ \<Rightarrow> []) tr)"

text \<open>The values passed to \<open>output\<close> under one key.\<close>

definition reported :: "string \<Rightarrow> event list \<Rightarrow> output_value list" where
  "reported key tr =
     concat (map (\<lambda>e. case e of Output k v \<Rightarrow> (if k = key then [v] else []) | _ \<Rightarrow> []) tr)"

subsection \<open>The member provisioner as the specification words it\<close>

text \<open>
  The specification describes the loop as a fold that produces one tagged outcome per
  member, in input order, and two sequences partitioned by tag. \<open>provision_outcomes\<close>
  follows those words (it is not a translation of the source; \<open>add_members\<close> is), and
  \<open>add_members\<close> is compared with it below.
\<close>

datatype member_outcome = Success string role | Failure string role string

fun provision_outcomes ::
  "'w octokit \<Rightarrow> string \<Rightarrow> team \<Rightarrow> member_spec list \<Rightarrow> 'w \<Rightarrow> member_outcome list \<times> 'w"
where
  "provision_outcomes octokit org team [] w = ([], w)"
| "provision_outcomes octokit org team (member # rest) w =
     (case teams_addOrUpdateMembershipForUserInOrg octokit (membership_call org team member) w of
        (Inr ok, w') \<Rightarrow>
          (Success (username member) (role_or_member member) #
             fst (provision_outcomes octokit org team rest w'),
           snd (provision_outcomes octokit org team rest w'))
      | (Inl failure, w') \<Rightarrow>
          (Failure (username member) (role_or_member member) (thrown_message failure) #
             fst (provision_outcomes octokit org team rest w'),
           snd (provision_outcomes octokit org team rest w')))"

fun successes :: "member_outcome list \<Rightarrow> added_member list" where
  "successes [] = []"
| "successes (Success u r # os) = \<lparr>added_username = u, added_role = r\<rparr> # successes os"
| "successes (Failure u r e # os) = successes os"

fun failures :: "member_outcome list \<Rightarrow> failed_member list" where
  "failures [] = []"
| "failures (Success u r # os) = failures os"
| "failures (Failure u r e # os) =
     \<lparr>failed_username = u, failed_role = r, failed_error = e\<rparr> # failures os"

fun outcome_member :: "member_outcome \<Rightarrow> string \<times> role" where
  "outcome_member (Success u r) = (u, r)"
| "outcome_member (Failure u r e) = (u, r)"

text \<open>A member of the input with its role defaulted, and the same pair read off an entry of
  either result sequence.\<close>

definition resolved :: "member_spec \<Rightarrow> string \<times> role" where
  "resolved member = (username member, role_or_member member)"

definition added_member_of :: "added_member \<Rightarrow> string \<times> role" where
  "added_member_of a = (added_username a, added_role a)"

definition failed_member_of :: "failed_member \<Rightarrow> string \<times> role" where
  "failed_member_of f = (failed_username f, failed_role f)"

text \<open>\<open>input.members\<close>, with an absent list read as the empty one (the guard at line 187
  skips the loop for both).\<close>

definition members_of :: "input \<Rightarrow> member_spec list" where
  "members_of inp = (case members inp of None \<Rightarrow> [] | Some ms \<Rightarrow> ms)"

subsection \<open>The test doubles of \<open>githubTeam.test.ts\<close>\<close>

text \<open>The world of the doubles is the number of membership calls made so far.\<close>

definition mockIntegrations :: scm_integration_registry where
  "mockIntegrations =
     \<lparr>byHost = (\<lambda>h. Some \<lparr>config = \<lparr>apiBaseUrl = Some ''https://api.github.com''\<rparr>\<rparr>)\<rparr>"

definition noIntegrations :: scm_integration_registry where
  "noIntegrations = \<lparr>byHost = (\<lambda>h. None)\<rparr>"

definition mockCredentialsProvider :: "nat github_credentials_provider" where
  "mockCredentialsProvider url w = (Inr \<lparr>credentials_token = Some ''mock-github-token''\<rparr>, w)"

definition failingCredentialsProvider :: "nat github_credentials_provider" where
  "failingCredentialsProvider url w =
     (Inl (JsError ''Error'' ''GitHub App not installed on organization''), w)"

definition mockTeam :: team where
  "mockTeam =
     \<lparr>team_id = 12345, team_name = ''test-team'', slug = ''test-team'',
      html_url = ''https://github.com/orgs/test-org/teams/test-team''\<rparr>"

text \<open>\<open>mockResolvedValueOnce\<close> followed by \<open>mockRejectedValueOnce\<close>: the second membership
  call is rejected, every other one resolves.\<close>

definition mockOctokit :: "nat octokit" where
  "mockOctokit =
     \<lparr>teams_create = (\<lambda>p w. (Inr \<lparr>data = mockTeam\<rparr>, w)),
      teams_addOrUpdateMembershipForUserInOrg =
        (\<lambda>p w. (if w = 1 then Inl (JsError ''Error'' ''User not found'') else Inr (), Suc w))\<rparr>"

definition mockLibrary :: "nat library" where
  "mockLibrary =
     \<lparr>Octokit = (\<lambda>opts. mockOctokit), fromIntegrations = (\<lambda>i. mockCredentialsProvider)\<rparr>"

definition mockOptions :: "nat action_options" where
  "mockOptions =
     \<lparr>integrations = mockIntegrations,
      githubCredentialsProvider = Some mockCredentialsProvider\<rparr>"

definition failingOptions :: "nat action_options" where
  "failingOptions =
     \<lparr>integrations = mockIntegrations,
      githubCredentialsProvider = Some failingCredentialsProvider\<rparr>"

definition unconfiguredOptions :: "nat action_options" where
  "unconfiguredOptions =
     \<lparr>integrations = noIntegrations,
      githubCredentialsProvider = Some mockCredentialsProvider\<rparr>"

definition mockClientOptions :: octokit_options where
  "mockClientOptions =
     \<lparr>auth = ''mock-github-token'', baseUrl = Some ''https://api.github.com'',
      previews = [''nebula-preview''], request_timeout = 60000\<rparr>"

text \<open>The input of the test \<open>should create basic team without members\<close>.\<close>

definition basicInput :: input where
  "basicInput =
     \<lparr>organization = Some ''test-org'', teamName = ''test-team'',
      description = Some ''Test team'', privacy = Some Closed, members = None, token = None\<rparr>"

text \<open>The input of the test \<open>should use user-provided token when available\<close>, and the same
  input with an empty token.\<close>

definition tokenInput :: input where
  "tokenInput = basicInput\<lparr>token := Some ''user-provided-token''\<rparr>"

definition emptyTokenInput :: input where
  "emptyTokenInput = basicInput\<lparr>token := Some ''''\<rparr>"

text \<open>The input of the test \<open>should handle mixed success/failure when adding members\<close>.\<close>

definition mixedInput :: input where
  "mixedInput =
     \<lparr>organization = Some ''test-org'', teamName = ''team-mixed-results'',
      description = Some ''Team with mixed member results'', privacy = Some Closed,
      members = Some [\<lparr>username = ''validuser'', role = Some Member\<rparr>,
                      \<lparr>username = ''invaliduser'', role = Some Maintainer\<rparr>],
      token = None\<rparr>"

text \<open>A rejection with a \<open>Symbol\<close>: not an instance of \<open>Error\<close>, and its conversion to
  a string raises a \<open>TypeError\<close>.\<close>

definition symbolRejection :: js_thrown where
  "symbolRejection =
     Unprintable None (JsError ''TypeError'' ''Cannot convert a Symbol value to a string'')"

text \<open>A client whose first membership call is rejected with a \<open>Symbol\<close>, a client whose
  create-team call is, and a credentials provider that is.\<close>

definition symbolMembershipOctokit :: "nat octokit" where
  "symbolMembershipOctokit =
     \<lparr>teams_create = (\<lambda>p w. (Inr \<lparr>data = mockTeam\<rparr>, w)),
      teams_addOrUpdateMembershipForUserInOrg =
        (\<lambda>p w. (if w = 0 then Inl symbolRejection else Inr (), Suc w))\<rparr>"

definition symbolCreateOctokit :: "nat octokit" where
  "symbolCreateOctokit =
     \<lparr>teams_create = (\<lambda>p w. (Inl symbolRejection, w)),
      teams_addOrUpdateMembershipForUserInOrg = (\<lambda>p w. (Inr (), Suc w))\<rparr>"

definition symbolMembershipLibrary :: "nat library" where
  "symbolMembershipLibrary =
     \<lparr>Octokit = (\<lambda>opts. symbolMembershipOctokit),
      fromIntegrations = (\<lambda>i. mockCredentialsProvider)\<rparr>"

definition symbolCreateLibrary :: "nat library" where
  "symbolCreateLibrary =
     \<lparr>Octokit = (\<lambda>opts. symbolCreateOctokit),
      fromIntegrations = (\<lambda>i. mockCredentialsProvider)\<rparr>"

definition symbolCredentialsOptions :: "nat action_options" where
  "symbolCredentialsOptions =
     \<lparr>integrations = mockIntegrations,
      githubCredentialsProvider = Some (\<lambda>url w. (Inl symbolRejection, w))\<rparr>"

text \<open>A deployment whose integration for \<open>github.com\<close> sets the API base URL to another
  host.\<close>

definition redirectedOptions :: "nat action_options" where
  "redirectedOptions =
     \<lparr>integrations =
        \<lparr>byHost = (\<lambda>h. Some \<lparr>config =
                     \<lparr>apiBaseUrl = Some ''https://github.enterprise.com/api/v3''\<rparr>\<rparr>)\<rparr>,
      githubCredentialsProvider = Some mockCredentialsProvider\<rparr>"

text \<open>A member list that names the same user twice.\<close>

definition repeatedInput :: input where
  "repeatedInput =
     basicInput\<lparr>members := Some [\<lparr>username = ''validuser'', role = Some Member\<rparr>,
                                  \<lparr>username = ''validuser'', role = None\<rparr>]\<rparr>"

section \<open>Properties\<close>

subsection \<open>Reading a trace\<close>

lemma truthy_iff: "truthy t \<longleftrightarrow> (\<exists>c cs. t = Some (c # cs))"
  by (cases t) (auto simp: neq_Nil_conv)

lemma observers_append:
  "host_lookups (xs @ ys) = host_lookups xs @ host_lookups ys"
  "credential_urls (xs @ ys) = credential_urls xs @ credential_urls ys"
  "clients (xs @ ys) = clients xs @ clients ys"
  "create_calls (xs @ ys) = create_calls xs @ create_calls ys"
  "membership_calls (xs @ ys) = membership_calls xs @ membership_calls ys"
  "reported key (xs @ ys) = reported key xs @ reported key ys"
  by (simp_all add: host_lookups_def credential_urls_def clients_def create_calls_def
      membership_calls_def reported_def)

lemma observers_Nil:
  "host_lookups [] = []" "credential_urls [] = []" "clients [] = []" "create_calls [] = []"
  "membership_calls [] = []" "reported key [] = []"
  by (simp_all add: host_lookups_def credential_urls_def clients_def create_calls_def
      membership_calls_def reported_def)

lemma observers_Cons:
  "host_lookups (e # es) = (case e of ByHost h \<Rightarrow> [h] | _ \<Rightarrow> []) @ host_lookups es"
  "credential_urls (e # es) = (case e of GetCredentials u \<Rightarrow> [u] | _ \<Rightarrow> []) @ credential_urls es"
  "clients (e # es) = (case e of NewOctokit opts \<Rightarrow> [opts] | _ \<Rightarrow> []) @ clients es"
  "create_calls (e # es) = (case e of TeamsCreate p \<Rightarrow> [p] | _ \<Rightarrow> []) @ create_calls es"
  "membership_calls (e # es) =
     (case e of AddOrUpdateMembership p \<Rightarrow> [p] | _ \<Rightarrow> []) @ membership_calls es"
  "reported key (e # es) =
     (case e of Output k v \<Rightarrow> (if k = key then [v] else []) | _ \<Rightarrow> []) @ reported key es"
  by (simp_all add: host_lookups_def credential_urls_def clients_def create_calls_def
      membership_calls_def reported_def)

lemmas observers = observers_Nil observers_Cons observers_append

lemma observers_membership:
  "host_lookups (map (\<lambda>m. AddOrUpdateMembership (f m)) ms) = []"
  "credential_urls (map (\<lambda>m. AddOrUpdateMembership (f m)) ms) = []"
  "clients (map (\<lambda>m. AddOrUpdateMembership (f m)) ms) = []"
  "create_calls (map (\<lambda>m. AddOrUpdateMembership (f m)) ms) = []"
  "membership_calls (map (\<lambda>m. AddOrUpdateMembership (f m)) ms) = map f ms"
  "reported key (map (\<lambda>m. AddOrUpdateMembership (f m)) ms) = []"
  by (induction ms) (simp_all add: observers)

lemma observers_outputs:
  "host_lookups (set_outputs t r) = []"
  "credential_urls (set_outputs t r) = []"
  "clients (set_outputs t r) = []"
  "create_calls (set_outputs t r) = []"
  "membership_calls (set_outputs t r) = []"
  "reported ''membersAdded'' (set_outputs t r) = [OutAdded (added r)]"
  "reported ''membersFailed'' (set_outputs t r) = [OutFailed (failed r)]"
  by (simp_all add: set_outputs_def observers)

lemma membership_calls_take:
  "membership_calls (map (\<lambda>m. AddOrUpdateMembership (f m)) (take n ms)) = take n (map f ms)"
  by (simp add: observers_membership take_map)

subsection \<open>The member loop\<close>

text \<open>The loop calls the remote service for an initial segment of the members, in order,
  and for the first member at least.\<close>

lemma add_members_trace:
  "\<exists>n. n \<le> length ms \<and> (ms \<noteq> [] \<longrightarrow> 0 < n) \<and>
       trace (snd (add_members octokit org team ms memberResults s)) =
         trace s @ map (\<lambda>m. AddOrUpdateMembership (membership_call org team m)) (take n ms)"
proof (induction ms arbitrary: memberResults s)
  case Nil
  show ?case by simp
next
  case (Cons m ms)
  let ?s1 = "emit (AddOrUpdateMembership (membership_call org team m)) s"
  obtain r w where call:
    "teams_addOrUpdateMembershipForUserInOrg octokit (membership_call org team m) (world s) = (r, w)"
    by (cases "teams_addOrUpdateMembershipForUserInOrg octokit (membership_call org team m) (world s)")
  have first: "trace (?s1\<lparr>world := w\<rparr>) =
                 trace s @ [AddOrUpdateMembership (membership_call org team m)]"
    by (simp add: emit_def)
  consider (aborted) "add_members octokit org team (m # ms) memberResults s =
                        (Inl (projl (to_string (projl r))), ?s1\<lparr>world := w\<rparr>)"
    | (continued) memberResults' where
        "add_members octokit org team (m # ms) memberResults s =
           add_members octokit org team ms memberResults' (?s1\<lparr>world := w\<rparr>)"
    using call
    by (cases r; cases "to_string (projl r)") (auto simp: emit_def)
  then show ?case
  proof cases
    case aborted
    have "trace (snd (add_members octokit org team (m # ms) memberResults s)) =
            trace s @ map (\<lambda>m. AddOrUpdateMembership (membership_call org team m))
                        (take (Suc 0) (m # ms))"
      by (simp add: aborted first del: add_members.simps)
    then show ?thesis
      by (intro exI [of _ "Suc 0"]) simp
  next
    case continued
    from Cons.IH [of memberResults' "?s1\<lparr>world := w\<rparr>"]
    obtain n where n: "n \<le> length ms"
      and tr: "trace (snd (add_members octokit org team ms memberResults' (?s1\<lparr>world := w\<rparr>))) =
                 trace (?s1\<lparr>world := w\<rparr>) @
                 map (\<lambda>m. AddOrUpdateMembership (membership_call org team m)) (take n ms)"
      by blast
    have "trace (snd (add_members octokit org team (m # ms) memberResults s)) =
            trace s @ map (\<lambda>m. AddOrUpdateMembership (membership_call org team m))
                        (take (Suc n) (m # ms))"
      by (simp add: continued tr first del: add_members.simps)
    with n show ?thesis
      by (intro exI [of _ "Suc n"]) simp
  qed
qed

text \<open>When the loop is not left early, it computes what the specification's fold does and
  has called the remote service for every member.\<close>

lemma add_members_completed:
  assumes "add_members octokit org team ms memberResults s = (Inr memberResults', s')"
  shows "memberResults' =
           \<lparr>added = added memberResults @
                      successes (fst (provision_outcomes octokit org team ms (world s))),
            failed = failed memberResults @
                      failures (fst (provision_outcomes octokit org team ms (world s)))\<rparr> \<and>
         s' = \<lparr>world = snd (provision_outcomes octokit org team ms (world s)),
               trace = trace s @
                 map (\<lambda>m. AddOrUpdateMembership (membership_call org team m)) ms\<rparr>"
  using assms
proof (induction ms arbitrary: memberResults s)
  case Nil
  then show ?case by auto
next
  case (Cons m ms)
  obtain r w where call:
    "teams_addOrUpdateMembershipForUserInOrg octokit (membership_call org team m) (world s) = (r, w)"
    by (cases "teams_addOrUpdateMembershipForUserInOrg octokit (membership_call org team m) (world s)")
  show ?case
  proof (cases r)
    case (Inr ok)
    with call Cons.prems
    have "add_members octokit org team ms
            (memberResults\<lparr>added := added memberResults @
               [\<lparr>added_username = username m, added_role = role_or_member m\<rparr>]\<rparr>)
            ((emit (AddOrUpdateMembership (membership_call org team m)) s)\<lparr>world := w\<rparr>) =
          (Inr memberResults', s')"
      by (simp add: emit_def)
    from Cons.IH [OF this] call Inr show ?thesis
      by (simp add: emit_def)
  next
    case (Inl e)
    with call Cons.prems obtain shown where shown: "to_string e = Inr shown"
      by (cases "to_string e") (auto simp: emit_def)
    with call Cons.prems Inl
    have "add_members octokit org team ms
            (memberResults\<lparr>failed := failed memberResults @
               [\<lparr>failed_username = username m, failed_role = role_or_member m,
                 failed_error = thrown_message e\<rparr>]\<rparr>)
            ((emit (AddOrUpdateMembership (membership_call org team m)) s)\<lparr>world := w\<rparr>) =
          (Inr memberResults', s')"
      by (simp add: emit_def)
    from Cons.IH [OF this] call Inl show ?thesis
      by (simp add: emit_def)
  qed
qed

text \<open>The loop is not left early when every rejection of the client converts to a
  string.\<close>

lemma add_members_completes:
  assumes "\<And>p w e w'. teams_addOrUpdateMembershipForUserInOrg octokit p w = (Inl e, w') \<Longrightarrow>
             \<exists>text. to_string e = Inr text"
  shows "\<exists>memberResults'. fst (add_members octokit org team ms memberResults s) =
           Inr memberResults'"
proof (induction ms arbitrary: memberResults s)
  case Nil
  show ?case by simp
next
  case (Cons m ms)
  obtain r w where call:
    "teams_addOrUpdateMembershipForUserInOrg octokit (membership_call org team m) (world s) = (r, w)"
    by (cases "teams_addOrUpdateMembershipForUserInOrg octokit (membership_call org team m) (world s)")
  show ?case
  proof (cases r)
    case (Inr ok)
    with call Cons.IH show ?thesis by (simp add: emit_def)
  next
    case (Inl e)
    with call assms obtain shown where "to_string e = Inr shown" by blast
    with call Inl Cons.IH show ?thesis by (simp add: emit_def)
  qed
qed

lemma outcomes_members:
  "map outcome_member (fst (provision_outcomes octokit org team ms w)) = map resolved ms"
  by (induction ms arbitrary: w) (auto simp: resolved_def split: prod.splits sum.splits)

lemma outcomes_append:
  "provision_outcomes octokit org team (xs @ ys) w =
     (fst (provision_outcomes octokit org team xs w) @
        fst (provision_outcomes octokit org team ys (snd (provision_outcomes octokit org team xs w))),
      snd (provision_outcomes octokit org team ys (snd (provision_outcomes octokit org team xs w))))"
  by (induction xs arbitrary: w) (auto split: prod.splits sum.splits)

lemma failures_append: "failures (xs @ ys) = failures xs @ failures ys"
  by (induction xs rule: failures.induct) auto

lemma successes_subseq: "subseq (map added_member_of (successes os)) (map outcome_member os)"
  by (induction os rule: successes.induct) (auto simp: added_member_of_def)

lemma failures_subseq: "subseq (map failed_member_of (failures os)) (map outcome_member os)"
  by (induction os rule: failures.induct) (auto simp: failed_member_of_def)

lemma partition_length: "length (successes os) + length (failures os) = length os"
  by (induction os rule: successes.induct) auto

lemma partition_members:
  "mset (map added_member_of (successes os)) + mset (map failed_member_of (failures os)) =
     mset (map outcome_member os)"
  by (induction os rule: successes.induct) (auto simp: added_member_of_def failed_member_of_def)

subsection \<open>The resolver\<close>

lemma resolver_no_integration:
  assumes "byHost (opt_integrations options) (opt_host options) = None"
  shows "getOctokitOptionsForOrg lib options s =
           (Inl (JsError ''InputError'' (''No integration for host '' @ opt_host options)),
            \<lparr>world = world s, trace = trace s @ [ByHost (opt_host options)]\<rparr>)"
  using assms by (simp add: getOctokitOptionsForOrg_def emit_def)

lemma resolver_explicit_token:
  assumes "byHost (opt_integrations options) (opt_host options) = Some integration"
      and "opt_token options = Some t" and "t \<noteq> []"
  shows "getOctokitOptionsForOrg lib options s =
           (Inr \<lparr>auth = t, baseUrl = apiBaseUrl (config integration),
                 previews = [''nebula-preview''], request_timeout = 60000\<rparr>,
            \<lparr>world = world s, trace = trace s @ [ByHost (opt_host options)]\<rparr>)"
  using assms by (cases t) (simp_all add: getOctokitOptionsForOrg_def emit_def)

lemma resolver_provider_throws:
  assumes "byHost (opt_integrations options) (opt_host options) = Some integration"
      and "\<not> truthy (opt_token options)" and "opt_owner options \<noteq> []"
      and "(case opt_credentialsProvider options of
              Some p \<Rightarrow> p
            | None \<Rightarrow> fromIntegrations lib (opt_integrations options))
             (''https://'' @ opt_host options @ ''/'' @ encodeURIComponent (opt_owner options))
             (world s) = (Inl e, w')"
  shows "fst (getOctokitOptionsForOrg lib options s) = Inl e"
  using assms
  by (auto simp: getOctokitOptionsForOrg_def emit_def Let_def
      split: option.splits list.splits prod.splits sum.splits)

lemma resolver_trace:
  "\<exists>evs. trace (snd (getOctokitOptionsForOrg lib options s)) =
            trace s @ ByHost (opt_host options) # evs \<and>
         (evs = [] \<or>
          evs = [GetCredentials (''https://'' @ opt_host options @ ''/'' @
                                  encodeURIComponent (opt_owner options))] \<or>
          evs = [FromIntegrations,
                 GetCredentials (''https://'' @ opt_host options @ ''/'' @
                                  encodeURIComponent (opt_owner options))]) \<and>
         (truthy (opt_token options) \<longrightarrow> evs = [])"
  by (auto simp: getOctokitOptionsForOrg_def emit_def Let_def
      split: option.splits list.splits prod.splits sum.splits)

lemma resolver_quiet:
  assumes "getOctokitOptionsForOrg lib options \<lparr>world = w, trace = []\<rparr> = (r, s1)"
  shows "clients (trace s1) = []" and "create_calls (trace s1) = []"
    and "membership_calls (trace s1) = []" and "reported key (trace s1) = []"
    and "host_lookups (trace s1) = [opt_host options]"
proof -
  from resolver_trace [of lib options "\<lparr>world = w, trace = []\<rparr>"] assms
  obtain evs where tr: "trace s1 = ByHost (opt_host options) # evs"
    and evs: "evs = [] \<or>
          evs = [GetCredentials (''https://'' @ opt_host options @ ''/'' @
                                  encodeURIComponent (opt_owner options))] \<or>
          evs = [FromIntegrations,
                 GetCredentials (''https://'' @ opt_host options @ ''/'' @
                                  encodeURIComponent (opt_owner options))]"
    by auto
  from evs show "clients (trace s1) = []" and "create_calls (trace s1) = []"
    and "membership_calls (trace s1) = []" and "reported key (trace s1) = []"
    and "host_lookups (trace s1) = [opt_host options]"
    unfolding tr by (auto simp: observers)
qed

subsection \<open>\<open>encodeURIComponent\<close> and the test doubles\<close>

lemma hexDigit_range: "hexDigit n \<in> set ''0123456789ABCDEF''"
  unfolding hexDigit_def by (rule nth_mem) simp

lemma encodeByte_range:
  "set (encodeByte c) \<subseteq> set uriUnreserved \<union> set ''%0123456789ABCDEF''"
  using hexDigit_range [of "of_char c div 16"] hexDigit_range [of "of_char c mod 16"]
  by (auto simp: encodeByte_def)

lemma encodeURIComponent_range:
  "set (encodeURIComponent s) \<subseteq> set uriUnreserved \<union> set ''%0123456789ABCDEF''"
  using encodeByte_range by (induction s) (auto simp: encodeURIComponent_def)

lemma encodeURIComponent_escapes:
  "set (encodeURIComponent s) \<inter> set (''/?#@:'' @ [CHR 0x5C]) = {}"
proof -
  have "(set uriUnreserved \<union> set ''%0123456789ABCDEF'') \<inter> set (''/?#@:'' @ [CHR 0x5C]) = {}"
    by (simp add: uriUnreserved_def)
  with encodeURIComponent_range [of s] show ?thesis by blast
qed

lemma mock_resolver:
  "getOctokitOptionsForOrg lib (resolver_options mockOptions inp ''test-org'')
     \<lparr>world = 0, trace = []\<rparr> =
   (if truthy (token inp)
    then (Inr (mockClientOptions\<lparr>auth := the (token inp)\<rparr>),
          \<lparr>world = 0, trace = [ByHost ''github.com'']\<rparr>)
    else (Inr mockClientOptions,
          \<lparr>world = 0, trace = [ByHost ''github.com'',
                                 GetCredentials ''https://github.com/test-org'']\<rparr>))"
  by (cases "token inp" rule: truthy.cases)
     (auto simp: getOctokitOptionsForOrg_def resolver_options_def mockOptions_def
      mockIntegrations_def mockCredentialsProvider_def mockClientOptions_def emit_def
      encodeURIComponent_def encodeByte_def uriUnreserved_def Let_def split: list.splits)

lemma mock_created:
  "teams_create (Octokit mockLibrary opts) p w = (Inr \<lparr>data = mockTeam\<rparr>, w)"
  by (simp add: mockLibrary_def mockOctokit_def)

subsection \<open>The paths through the handler\<close>

lemma handler_no_organization:
  assumes "\<not> truthy (organization inp)"
  shows "handler lib options inp w =
           (Inl (JsError ''Error'' ''Organization name is required but was not provided''),
            \<lparr>world = w, trace = []\<rparr>)"
  using assms by (cases "organization inp") (auto simp: handler_def Let_def split: list.splits)

lemma handler_auth_failed:
  assumes "organization inp = Some org" and "org \<noteq> []"
      and "getOctokitOptionsForOrg lib (resolver_options options inp org)
             \<lparr>world = w, trace = []\<rparr> = (Inl e, s1)"
  shows "handler lib options inp w =
           (case to_string e of
              Inl raised \<Rightarrow> Inl raised
            | Inr shown \<Rightarrow> Inl (JsError ''Error'' (authentication_failed_message org e)),
            s1)"
  using assms by (cases org; cases "to_string e") (simp_all add: handler_def)

lemma create_team_failed:
  assumes "teams_create octokit (create_call org inp) (world s) = (Inl e, w2)"
  shows "create_team octokit org inp s =
           (Inl e, \<lparr>world = w2, trace = trace s @ [TeamsCreate (create_call org inp)]\<rparr>)"
  using assms by (simp add: create_team_def emit_def)

text \<open>After the team has been created: the loop over \<open>members_of inp\<close>, then the outputs
  when the loop was not left early.\<close>

lemma create_team_created:
  assumes "teams_create octokit (create_call org inp) (world s) = (Inr teamResponse, w2)"
  shows "create_team octokit org inp s =
           (case add_members octokit org (data teamResponse) (members_of inp)
                   \<lparr>added = [], failed = []\<rparr>
                   \<lparr>world = w2, trace = trace s @ [TeamsCreate (create_call org inp)]\<rparr> of
              (Inl raised, s3) \<Rightarrow> (Inl raised, s3)
            | (Inr memberResults, s3) \<Rightarrow>
                (Inr (), s3\<lparr>trace := trace s3 @ set_outputs (data teamResponse) memberResults\<rparr>))"
proof -
  let ?s2 = "\<lparr>world = w2, trace = trace s @ [TeamsCreate (create_call org inp)]\<rparr>"
  let ?loop = "add_members octokit org (data teamResponse) (members_of inp)
                 \<lparr>added = [], failed = []\<rparr> ?s2"
  have s2: "(emit (TeamsCreate (create_call org inp)) s)\<lparr>world := w2\<rparr> = ?s2"
    by (cases s) (simp add: emit_def)
  have call: "teams_create octokit (create_call org inp)
                (world (emit (TeamsCreate (create_call org inp)) s)) = (Inr teamResponse, w2)"
    using assms by (simp add: emit_def)
  have "(case members inp of
           Some (m # ms) \<Rightarrow>
             add_members octokit org (data teamResponse) (m # ms) \<lparr>added = [], failed = []\<rparr> ?s2
         | _ \<Rightarrow> (Inr \<lparr>added = [], failed = []\<rparr>, ?s2)) = ?loop"
    by (simp add: members_of_def split: option.splits list.splits)
  then have unfolded: "create_team octokit org inp s =
          (let (added_or_raised, s3) = ?loop
           in case added_or_raised of
                Inl raised \<Rightarrow> (Inl raised, s3)
              | Inr memberResults \<Rightarrow>
                  (Inr (), s3\<lparr>trace := trace s3 @ set_outputs (data teamResponse) memberResults\<rparr>))"
    by (simp only: create_team_def Let_def call s2 prod.case sum.case)
  obtain r s3 where loop: "?loop = (r, s3)" by (cases ?loop)
  show ?thesis
    unfolding unfolded loop by (cases r) simp_all
qed

lemma create_team_created_trace:
  assumes "teams_create octokit (create_call org inp) (world s) = (Inr teamResponse, w2)"
  shows "\<exists>n outs. n \<le> length (members_of inp) \<and> (members_of inp \<noteq> [] \<longrightarrow> 0 < n) \<and>
           (outs = [] \<or> (\<exists>memberResults. outs = set_outputs (data teamResponse) memberResults)) \<and>
           trace (snd (create_team octokit org inp s)) =
             trace s @ TeamsCreate (create_call org inp) #
               map (\<lambda>m. AddOrUpdateMembership (membership_call org (data teamResponse) m))
                 (take n (members_of inp)) @ outs"
proof -
  let ?s2 = "\<lparr>world = w2, trace = trace s @ [TeamsCreate (create_call org inp)]\<rparr>"
  let ?loop = "add_members octokit org (data teamResponse) (members_of inp)
                 \<lparr>added = [], failed = []\<rparr> ?s2"
  from add_members_trace [of "members_of inp" octokit org "data teamResponse"
      "\<lparr>added = [], failed = []\<rparr>" ?s2]
  obtain n where n: "n \<le> length (members_of inp)" "members_of inp \<noteq> [] \<longrightarrow> 0 < n"
    and tr: "trace (snd ?loop) =
               trace ?s2 @
               map (\<lambda>m. AddOrUpdateMembership (membership_call org (data teamResponse) m))
                 (take n (members_of inp))"
    by blast
  obtain r s3 where loop: "?loop = (r, s3)" by (cases ?loop)
  show ?thesis
  proof (cases r)
    case (Inl raised)
    with create_team_created [OF assms] loop tr
    have "trace (snd (create_team octokit org inp s)) =
            trace s @ TeamsCreate (create_call org inp) #
              map (\<lambda>m. AddOrUpdateMembership (membership_call org (data teamResponse) m))
                (take n (members_of inp)) @ []"
      by simp
    with n show ?thesis by blast
  next
    case (Inr memberResults)
    with create_team_created [OF assms] loop tr
    have "trace (snd (create_team octokit org inp s)) =
            trace s @ TeamsCreate (create_call org inp) #
              map (\<lambda>m. AddOrUpdateMembership (membership_call org (data teamResponse) m))
                (take n (members_of inp)) @ set_outputs (data teamResponse) memberResults"
      by simp
    with n show ?thesis by blast
  qed
qed

lemma create_team_quiet:
  "host_lookups (trace (snd (create_team octokit org inp s))) = host_lookups (trace s) \<and>
   credential_urls (trace (snd (create_team octokit org inp s))) = credential_urls (trace s) \<and>
   clients (trace (snd (create_team octokit org inp s))) = clients (trace s)"
proof -
  obtain r w2 where call: "teams_create octokit (create_call org inp) (world s) = (r, w2)"
    by (cases "teams_create octokit (create_call org inp) (world s)")
  show ?thesis
  proof (cases r)
    case (Inl e)
    with create_team_failed [of octokit org inp s e w2] call show ?thesis
      by (simp add: observers)
  next
    case (Inr teamResponse)
    with create_team_created_trace [of octokit org inp s teamResponse w2] call show ?thesis
      by (auto simp: observers observers_membership observers_outputs)
  qed
qed

text \<open>The handler once the resolver has returned options: the client is built, and the
  rest is \<open>create_team\<close> with the wrapping of what it throws.\<close>

lemma handler_authenticated:
  assumes "organization inp = Some org" and "org \<noteq> []"
      and "getOctokitOptionsForOrg lib (resolver_options options inp org)
             \<lparr>world = w, trace = []\<rparr> = (Inr octokitOptions, s1)"
  shows "handler lib options inp w =
           (case create_team (Octokit lib octokitOptions) org inp
                   \<lparr>world = world s1, trace = trace s1 @ [NewOctokit octokitOptions]\<rparr> of
              (Inl e, s3) \<Rightarrow>
                (case to_string e of
                   Inl raised \<Rightarrow> Inl raised
                 | Inr shown \<Rightarrow>
                     Inl (JsError ''Error''
                       (''GitHub team creation failed: '' @ thrown_message e)),
                 s3)
            | (Inr done, s3) \<Rightarrow> (Inr (), s3))"
proof -
  let ?s2 = "\<lparr>world = world s1, trace = trace s1 @ [NewOctokit octokitOptions]\<rparr>"
  obtain c cs where org: "org = c # cs"
    using assms(2) by (cases org) auto
  have s2: "emit (NewOctokit octokitOptions) s1 = ?s2"
    by (cases s1) (simp add: emit_def)
  obtain r s3 where created:
    "create_team (Octokit lib octokitOptions) (c # cs) inp ?s2 = (r, s3)"
    by (cases "create_team (Octokit lib octokitOptions) (c # cs) inp ?s2")
  show ?thesis
    using assms(1,3) created unfolding org
    by (cases r; cases "to_string (projl r)") (simp_all add: handler_def s2 Let_def)
qed

lemma handler_create_failed:
  assumes "organization inp = Some org" and "org \<noteq> []"
      and "getOctokitOptionsForOrg lib (resolver_options options inp org)
             \<lparr>world = w, trace = []\<rparr> = (Inr octokitOptions, s1)"
      and "teams_create (Octokit lib octokitOptions) (create_call org inp) (world s1) =
             (Inl e, w2)"
  shows "handler lib options inp w =
           (case to_string e of
              Inl raised \<Rightarrow> Inl raised
            | Inr shown \<Rightarrow>
                Inl (JsError ''Error'' (''GitHub team creation failed: '' @ thrown_message e)),
            \<lparr>world = w2,
             trace = trace s1 @ [NewOctokit octokitOptions, TeamsCreate (create_call org inp)]\<rparr>)"
proof -
  have "create_team (Octokit lib octokitOptions) org inp
          \<lparr>world = world s1, trace = trace s1 @ [NewOctokit octokitOptions]\<rparr> =
        (Inl e, \<lparr>world = w2,
                 trace = trace s1 @ [NewOctokit octokitOptions, TeamsCreate (create_call org inp)]\<rparr>)"
    using create_team_failed [of "Octokit lib octokitOptions" org inp
        "\<lparr>world = world s1, trace = trace s1 @ [NewOctokit octokitOptions]\<rparr>" e w2] assms(4)
    by simp
  with handler_authenticated [OF assms(1-3)] show ?thesis by simp
qed

text \<open>The handler once the team has been created and the loop has gone through every
  member.\<close>

lemma handler_completed:
  assumes "organization inp = Some org" and "org \<noteq> []"
      and "getOctokitOptionsForOrg lib (resolver_options options inp org)
             \<lparr>world = w, trace = []\<rparr> = (Inr octokitOptions, s1)"
      and "teams_create (Octokit lib octokitOptions) (create_call org inp) (world s1) =
             (Inr teamResponse, w2)"
      and "fst (add_members (Octokit lib octokitOptions) org (data teamResponse) (members_of inp)
                  \<lparr>added = [], failed = []\<rparr>
                  \<lparr>world = w2,
                   trace = trace s1 @ [NewOctokit octokitOptions,
                                       TeamsCreate (create_call org inp)]\<rparr>) =
             Inr memberResults"
  shows "handler lib options inp w =
           (Inr (),
            \<lparr>world = snd (provision_outcomes (Octokit lib octokitOptions) org (data teamResponse)
                            (members_of inp) w2),
             trace = trace s1 @ NewOctokit octokitOptions # TeamsCreate (create_call org inp) #
               map (\<lambda>m. AddOrUpdateMembership (membership_call org (data teamResponse) m))
                 (members_of inp) @
               set_outputs (data teamResponse)
                 \<lparr>added = successes (fst (provision_outcomes (Octokit lib octokitOptions) org
                                           (data teamResponse) (members_of inp) w2)),
                  failed = failures (fst (provision_outcomes (Octokit lib octokitOptions) org
                                           (data teamResponse) (members_of inp) w2))\<rparr>\<rparr>)"
proof -
  let ?s2 = "\<lparr>world = world s1, trace = trace s1 @ [NewOctokit octokitOptions]\<rparr>"
  let ?s3 = "\<lparr>world = w2,
              trace = trace s1 @ [NewOctokit octokitOptions, TeamsCreate (create_call org inp)]\<rparr>"
  obtain s4 where loop:
    "add_members (Octokit lib octokitOptions) org (data teamResponse) (members_of inp)
       \<lparr>added = [], failed = []\<rparr> ?s3 = (Inr memberResults, s4)"
    using assms(5)
    by (cases "add_members (Octokit lib octokitOptions) org (data teamResponse) (members_of inp)
                 \<lparr>added = [], failed = []\<rparr> ?s3") simp
  note finished = add_members_completed [OF loop]
  have created: "teams_create (Octokit lib octokitOptions) (create_call org inp) (world ?s2) =
                   (Inr teamResponse, w2)"
    using assms(4) by simp
  have "create_team (Octokit lib octokitOptions) org inp ?s2 =
          (Inr (), s4\<lparr>trace := trace s4 @ set_outputs (data teamResponse) memberResults\<rparr>)"
    using create_team_created [OF created] loop by simp
  with handler_authenticated [OF assms(1-3)] finished show ?thesis
    by simp
qed

text \<open>When the handler returns normally, it has taken that path.\<close>

lemma handler_returned:
  assumes "fst (handler lib options inp w) = Inr ()"
  obtains org octokitOptions s1 teamResponse w2 memberResults where
    "organization inp = Some org" and "org \<noteq> []"
    and "getOctokitOptionsForOrg lib (resolver_options options inp org)
           \<lparr>world = w, trace = []\<rparr> = (Inr octokitOptions, s1)"
    and "teams_create (Octokit lib octokitOptions) (create_call org inp) (world s1) =
           (Inr teamResponse, w2)"
    and "fst (add_members (Octokit lib octokitOptions) org (data teamResponse) (members_of inp)
                \<lparr>added = [], failed = []\<rparr>
                \<lparr>world = w2,
                 trace = trace s1 @ [NewOctokit octokitOptions,
                                     TeamsCreate (create_call org inp)]\<rparr>) =
           Inr memberResults"
proof -
  have "truthy (organization inp)"
    using assms handler_no_organization [of inp lib options w] by (cases "truthy (organization inp)") auto
  then obtain org where org: "organization inp = Some org" "org \<noteq> []"
    by (auto simp: truthy_iff)
  obtain r s1 where resolved:
    "getOctokitOptionsForOrg lib (resolver_options options inp org)
       \<lparr>world = w, trace = []\<rparr> = (r, s1)"
    by (cases "getOctokitOptionsForOrg lib (resolver_options options inp org)
                 \<lparr>world = w, trace = []\<rparr>")
  have "\<exists>octokitOptions. r = Inr octokitOptions"
  proof (cases r)
    case (Inl e)
    with handler_auth_failed [OF org, of lib options w e s1] resolved assms show ?thesis
      by (cases "to_string e") auto
  qed simp
  then obtain octokitOptions where r: "r = Inr octokitOptions" by blast
  note auth = resolved [unfolded r]
  let ?s2 = "\<lparr>world = world s1, trace = trace s1 @ [NewOctokit octokitOptions]\<rparr>"
  obtain r' w2 where call:
    "teams_create (Octokit lib octokitOptions) (create_call org inp) (world s1) = (r', w2)"
    by (cases "teams_create (Octokit lib octokitOptions) (create_call org inp) (world s1)")
  have "\<exists>teamResponse. r' = Inr teamResponse"
  proof (cases r')
    case (Inl e)
    with handler_create_failed [OF org auth, of e w2] call assms show ?thesis
      by (cases "to_string e") auto
  qed simp
  then obtain teamResponse where r': "r' = Inr teamResponse" by blast
  note created = call [unfolded r']
  have created': "teams_create (Octokit lib octokitOptions) (create_call org inp) (world ?s2) =
                    (Inr teamResponse, w2)"
    using created by simp
  let ?loop = "add_members (Octokit lib octokitOptions) org (data teamResponse) (members_of inp)
                 \<lparr>added = [], failed = []\<rparr>
                 \<lparr>world = w2,
                  trace = trace s1 @ [NewOctokit octokitOptions,
                                      TeamsCreate (create_call org inp)]\<rparr>"
  obtain r'' s4 where loop: "?loop = (r'', s4)" by (cases ?loop)
  have "\<exists>memberResults. r'' = Inr memberResults"
  proof (cases r'')
    case (Inl raised)
    with create_team_created [OF created'] loop
    have "create_team (Octokit lib octokitOptions) org inp ?s2 = (Inl raised, s4)"
      by simp
    with handler_authenticated [OF org auth] assms show ?thesis
      by (cases "to_string raised") auto
  qed simp
  then obtain memberResults where "fst ?loop = Inr memberResults"
    using loop by auto
  with org auth created show ?thesis by (rule that)
qed

text \<open>The trace of the handler: that of the resolver, then, when the resolver returned
  options, the client built from them and the trace of \<open>create_team\<close>.\<close>

lemma handler_trace:
  assumes "organization inp = Some org" and "org \<noteq> []"
      and "getOctokitOptionsForOrg lib (resolver_options options inp org)
             \<lparr>world = w, trace = []\<rparr> = (r, s1)"
  shows "host_lookups (trace (snd (handler lib options inp w))) = host_lookups (trace s1)"
    and "credential_urls (trace (snd (handler lib options inp w))) =
           credential_urls (trace s1)"
    and "clients (trace (snd (handler lib options inp w))) =
           (case r of Inl e \<Rightarrow> [] | Inr octokitOptions \<Rightarrow> [octokitOptions])"
proof -
  have "host_lookups (trace (snd (handler lib options inp w))) = host_lookups (trace s1) \<and>
        credential_urls (trace (snd (handler lib options inp w))) =
          credential_urls (trace s1) \<and>
        clients (trace (snd (handler lib options inp w))) =
          (case r of Inl e \<Rightarrow> [] | Inr octokitOptions \<Rightarrow> [octokitOptions])"
  proof (cases r)
    case (Inl e)
    with handler_auth_failed [OF assms(1,2), of lib options w e s1] assms(3)
      resolver_quiet(1) [OF assms(3)]
    show ?thesis by simp
  next
    case (Inr octokitOptions)
    let ?s2 = "\<lparr>world = world s1, trace = trace s1 @ [NewOctokit octokitOptions]\<rparr>"
    have "snd (handler lib options inp w) =
            snd (create_team (Octokit lib octokitOptions) org inp ?s2)"
      using handler_authenticated [OF assms(1,2) assms(3) [unfolded Inr]]
      by (auto split: prod.splits sum.splits)
    then show ?thesis
      using Inr resolver_quiet(1) [OF assms(3)]
        create_team_quiet [of "Octokit lib octokitOptions" org inp ?s2]
      by (simp add: observers)
  qed
  then show
    "host_lookups (trace (snd (handler lib options inp w))) = host_lookups (trace s1)"
    "credential_urls (trace (snd (handler lib options inp w))) = credential_urls (trace s1)"
    "clients (trace (snd (handler lib options inp w))) =
           (case r of Inl e \<Rightarrow> [] | Inr octokitOptions \<Rightarrow> [octokitOptions])"
    by simp_all
qed

subsection \<open>The client's options and the test doubles\<close>

lemma resolver_baseUrl:
  assumes "getOctokitOptionsForOrg lib options s = (Inr octokitOptions, s1)"
  shows "\<exists>integration. byHost (opt_integrations options) (opt_host options) = Some integration \<and>
           baseUrl octokitOptions = apiBaseUrl (config integration)"
  using assms
  by (auto simp: getOctokitOptionsForOrg_def emit_def Let_def
      split: option.splits list.splits prod.splits sum.splits if_splits)

text \<open>Evaluating the handler on the test doubles.\<close>

lemmas doubles =
  mockLibrary_def mockOptions_def mockIntegrations_def mockCredentialsProvider_def
  mockOctokit_def mockTeam_def mockClientOptions_def
  symbolMembershipLibrary_def symbolMembershipOctokit_def symbolCreateLibrary_def
  symbolCreateOctokit_def symbolCredentialsOptions_def symbolRejection_def
  redirectedOptions_def
  basicInput_def mixedInput_def repeatedInput_def

lemmas evaluation =
  handler_def getOctokitOptionsForOrg_def resolver_options_def create_team_def
  create_call_def privacy_or_closed_def membership_call_def role_or_member_def
  set_outputs_def emit_def encodeURIComponent_def encodeByte_def uriUnreserved_def
  authentication_failed_message_def Let_def

lemma mixed_run:
  "handler mockLibrary mockOptions mixedInput 0 =
     (Inr (),
      \<lparr>world = 2,
       trace =
         [ByHost ''github.com'', GetCredentials ''https://github.com/test-org'',
          NewOctokit mockClientOptions,
          TeamsCreate (create_call ''test-org'' mixedInput),
          AddOrUpdateMembership
            \<lparr>membership_org = ''test-org'', team_slug = ''test-team'',
             membership_username = ''validuser'', membership_role = Member\<rparr>,
          AddOrUpdateMembership
            \<lparr>membership_org = ''test-org'', team_slug = ''test-team'',
             membership_username = ''invaliduser'', membership_role = Maintainer\<rparr>,
          Output ''teamId'' (OutNumber 12345),
          Output ''teamUrl'' (OutString ''https://github.com/orgs/test-org/teams/test-team''),
          Output ''teamSlug'' (OutString ''test-team''),
          Output ''membersAdded''
            (OutAdded [\<lparr>added_username = ''validuser'', added_role = Member\<rparr>]),
          Output ''membersFailed''
            (OutFailed [\<lparr>failed_username = ''invaliduser'', failed_role = Maintainer,
                         failed_error = ''User not found''\<rparr>])]\<rparr>)"
  by (simp add: doubles evaluation)

subsection \<open>When what was thrown converts to a string\<close>

text \<open>The three \<open>catch\<close> blocks do what they are written for whenever the caught value can
  be interpolated into the line they log.\<close>

lemma wrapped_message_differs:
  "JsError ''Error'' (authentication_failed_message org e) \<noteq> e"
proof (cases e)
  case (JsError cls msg)
  have "length (authentication_failed_message org e) > length msg"
    by (simp add: authentication_failed_message_def JsError)
  then show ?thesis using JsError by auto
qed simp_all

lemma printable_credential_failure_is_wrapped:
  assumes "\<not> truthy (token inp)"
      and "organization inp = Some org" and "org \<noteq> []"
      and "byHost (integrations options) ''github.com'' = Some integration"
      and "(case githubCredentialsProvider options of
              Some provider \<Rightarrow> provider
            | None \<Rightarrow> fromIntegrations lib (integrations options))
             (''https://github.com/'' @ encodeURIComponent org) w = (Inl e, w')"
      and "to_string e = Inr shown"
  shows "fst (handler lib options inp w) =
           Inl (JsError ''Error''
             (''Failed to authenticate with GitHub for organization '' @ [CHR 0x27] @ org @
              [CHR 0x27] @ '': '' @ thrown_message e)) \<and>
         fst (handler lib options inp w) \<noteq> Inl e \<and>
         clients (trace (snd (handler lib options inp w))) = []"
proof -
  obtain r s1 where resolved:
    "getOctokitOptionsForOrg lib (resolver_options options inp org)
       \<lparr>world = w, trace = []\<rparr> = (r, s1)"
    by (cases "getOctokitOptionsForOrg lib (resolver_options options inp org)
                 \<lparr>world = w, trace = []\<rparr>")
  have "fst (getOctokitOptionsForOrg lib (resolver_options options inp org)
               \<lparr>world = w, trace = []\<rparr>) = Inl e"
    by (rule resolver_provider_throws [where integration = integration and w' = w'])
       (use assms in \<open>auto simp: resolver_options_def split: option.splits\<close>)
  with resolved have r: "r = Inl e" by simp
  from handler_auth_failed [OF assms(2,3) resolved [unfolded r]]
    resolver_quiet(1) [OF resolved] wrapped_message_differs [of org e] assms(6)
  show ?thesis
    by (simp add: authentication_failed_message_def)
qed

lemma printable_team_creation_failure_is_terminal:
  assumes "organization inp = Some org" and "org \<noteq> []"
      and "getOctokitOptionsForOrg lib (resolver_options options inp org)
             \<lparr>world = w, trace = []\<rparr> = (Inr octokitOptions, s1)"
      and "teams_create (Octokit lib octokitOptions) (create_call org inp) (world s1) =
             (Inl e, w2)"
      and "to_string e = Inr shown"
  shows "fst (handler lib options inp w) =
           Inl (JsError ''Error'' (''GitHub team creation failed: '' @ thrown_message e)) \<and>
         create_calls (trace (snd (handler lib options inp w))) = [create_call org inp] \<and>
         membership_calls (trace (snd (handler lib options inp w))) = []"
  using handler_create_failed [OF assms(1-4)] resolver_quiet [OF assms(3)] assms(5)
  by (simp add: observers)

text \<open>A failing membership call leaves the loop exactly when what it threw does not convert;
  the handler then throws, with the team-creation wrapper when what the conversion raised
  converts.\<close>

lemma unprintable_member_failure_leaves_the_loop:
  assumes "teams_addOrUpdateMembershipForUserInOrg octokit (membership_call org team member)
             (world s) = (Inl e, w')"
      and "to_string e = Inl raised"
  shows "add_members octokit org team (member # rest) memberResults s =
           (Inl raised,
            \<lparr>world = w',
             trace = trace s @ [AddOrUpdateMembership (membership_call org team member)]\<rparr>)"
  using assms by (cases s) (simp add: emit_def)

lemma printable_member_failures_are_recorded:
  assumes "organization inp = Some org" and "org \<noteq> []"
      and "getOctokitOptionsForOrg lib (resolver_options options inp org)
             \<lparr>world = w, trace = []\<rparr> = (Inr octokitOptions, s1)"
      and "teams_create (Octokit lib octokitOptions) (create_call org inp) (world s1) =
             (Inr teamResponse, w2)"
      and "\<And>p w e w'.
             teams_addOrUpdateMembershipForUserInOrg (Octokit lib octokitOptions) p w =
               (Inl e, w') \<Longrightarrow> \<exists>shown. to_string e = Inr shown"
  shows "fst (handler lib options inp w) = Inr () \<and>
         membership_calls (trace (snd (handler lib options inp w))) =
           map (membership_call org (data teamResponse)) (members_of inp) \<and>
         reported ''membersAdded'' (trace (snd (handler lib options inp w))) =
           [OutAdded (successes (fst (provision_outcomes (Octokit lib octokitOptions) org
                                        (data teamResponse) (members_of inp) w2)))] \<and>
         reported ''membersFailed'' (trace (snd (handler lib options inp w))) =
           [OutFailed (failures (fst (provision_outcomes (Octokit lib octokitOptions) org
                                        (data teamResponse) (members_of inp) w2)))]"
proof -
  have "\<exists>memberResults.
          fst (add_members (Octokit lib octokitOptions) org (data teamResponse) (members_of inp)
                 \<lparr>added = [], failed = []\<rparr>
                 \<lparr>world = w2,
                  trace = trace s1 @ [NewOctokit octokitOptions,
                                      TeamsCreate (create_call org inp)]\<rparr>) =
            Inr memberResults"
    by (rule add_members_completes) (rule assms(5))
  then obtain memberResults where loop:
    "fst (add_members (Octokit lib octokitOptions) org (data teamResponse) (members_of inp)
            \<lparr>added = [], failed = []\<rparr>
            \<lparr>world = w2,
             trace = trace s1 @ [NewOctokit octokitOptions,
                                 TeamsCreate (create_call org inp)]\<rparr>) =
       Inr memberResults"
    by blast
  from handler_completed [OF assms(1-4) loop] resolver_quiet [OF assms(3)]
  show ?thesis
    by (simp add: observers observers_membership observers_outputs)
qed

section \<open>The claims\<close>

text \<open>
  \<^bold>\<open>C1\<close> says that no failure of a membership call makes the handler throw or stops the
  loop. The handler at an input where it does both: the member list is \<open>validuser\<close>,
  \<open>invaliduser\<close>, and the call for the first member is rejected with a \<open>Symbol\<close>. The
  warning line of the \<open>catch\<close> block cannot convert it, the \<open>TypeError\<close> leaves the loop,
  the second member is never attempted, nothing is reported, and the handler throws.
\<close>

theorem symbol_rejection_leaves_the_member_loop:
  "map username (members_of mixedInput) = [''validuser'', ''invaliduser''] \<and>
   fst (handler symbolMembershipLibrary mockOptions mixedInput 0) =
     Inl (JsError ''Error''
       ''GitHub team creation failed: Cannot convert a Symbol value to a string'') \<and>
   map membership_username
     (membership_calls (trace (snd (handler symbolMembershipLibrary mockOptions mixedInput 0)))) =
     [''validuser''] \<and>
   reported ''membersAdded''
     (trace (snd (handler symbolMembershipLibrary mockOptions mixedInput 0))) = [] \<and>
   reported ''membersFailed''
     (trace (snd (handler symbolMembershipLibrary mockOptions mixedInput 0))) = []"
  by (simp add: doubles evaluation members_of_def observers)

text \<open>
  \<^bold>\<open>C2, as the claim states it, fails\<close> on a member list that names a user twice: with the
  test double whose second membership call is rejected, \<open>validuser\<close> is in \<open>membersAdded\<close>
  and in \<open>membersFailed\<close>.
\<close>

theorem repeated_username_counterexample:
  "map username (members_of repeatedInput) = [''validuser'', ''validuser''] \<and>
   reported ''membersAdded'' (trace (snd (handler mockLibrary mockOptions repeatedInput 0))) =
     [OutAdded [\<lparr>added_username = ''validuser'', added_role = Member\<rparr>]] \<and>
   reported ''membersFailed'' (trace (snd (handler mockLibrary mockOptions repeatedInput 0))) =
     [OutFailed [\<lparr>failed_username = ''validuser'', failed_role = Member,
                  failed_error = ''User not found''\<rparr>]]"
  by (simp add: doubles evaluation members_of_def observers)

text \<open>
  \<^bold>\<open>C2, amended.\<close> When the handler returns normally (the loop has gone through the member
  list), \<open>membersAdded\<close> and \<open>membersFailed\<close> are each reported once; their lengths add up
  to the length of the member list; each is, in input order, a subsequence of the input
  members (username and defaulted role); and their entries, taken together with
  multiplicity, are the members of the input: every element of the member list is in
  exactly one of the two sequences, once. When the usernames of the input are pairwise
  distinct, no username occurs twice in the two sequences together.
\<close>

theorem member_results_partition_the_input:
  assumes "fst (handler lib options inp w) = Inr ()"
  shows "\<exists>membersAdded membersFailed.
           reported ''membersAdded'' (trace (snd (handler lib options inp w))) =
             [OutAdded membersAdded] \<and>
           reported ''membersFailed'' (trace (snd (handler lib options inp w))) =
             [OutFailed membersFailed] \<and>
           length membersAdded + length membersFailed = length (members_of inp) \<and>
           subseq (map added_member_of membersAdded) (map resolved (members_of inp)) \<and>
           subseq (map failed_member_of membersFailed) (map resolved (members_of inp)) \<and>
           mset (map added_member_of membersAdded) + mset (map failed_member_of membersFailed) =
             mset (map resolved (members_of inp)) \<and>
           (distinct (map username (members_of inp)) \<longrightarrow>
              distinct (map added_username membersAdded @ map failed_username membersFailed))"
proof -
  from assms obtain org octokitOptions s1 teamResponse w2 memberResults where
    org: "organization inp = Some org" "org \<noteq> []"
    and auth: "getOctokitOptionsForOrg lib (resolver_options options inp org)
                 \<lparr>world = w, trace = []\<rparr> = (Inr octokitOptions, s1)"
    and created: "teams_create (Octokit lib octokitOptions) (create_call org inp) (world s1) =
                    (Inr teamResponse, w2)"
    and loop: "fst (add_members (Octokit lib octokitOptions) org (data teamResponse)
                      (members_of inp) \<lparr>added = [], failed = []\<rparr>
                      \<lparr>world = w2,
                       trace = trace s1 @ [NewOctokit octokitOptions,
                                           TeamsCreate (create_call org inp)]\<rparr>) =
                 Inr memberResults"
    by (rule handler_returned)
  let ?outcomes = "fst (provision_outcomes (Octokit lib octokitOptions) org (data teamResponse)
                          (members_of inp) w2)"
  let ?trace = "trace (snd (handler lib options inp w))"
  have added: "reported ''membersAdded'' ?trace = [OutAdded (successes ?outcomes)]"
    and failed: "reported ''membersFailed'' ?trace = [OutFailed (failures ?outcomes)]"
    using handler_completed [OF org auth created loop] resolver_quiet [OF auth]
    by (simp_all add: observers observers_membership observers_outputs)
  have members: "map outcome_member ?outcomes = map resolved (members_of inp)"
    by (rule outcomes_members)
  have len: "length (successes ?outcomes) + length (failures ?outcomes) =
               length (members_of inp)"
    using partition_length [of ?outcomes] arg_cong [OF members, of length]
    by simp
  have sub1: "subseq (map added_member_of (successes ?outcomes)) (map resolved (members_of inp))"
    using successes_subseq [of ?outcomes] by (simp only: members)
  have sub2: "subseq (map failed_member_of (failures ?outcomes)) (map resolved (members_of inp))"
    using failures_subseq [of ?outcomes] by (simp only: members)
  have pairs: "mset (map added_member_of (successes ?outcomes)) +
               mset (map failed_member_of (failures ?outcomes)) =
                 mset (map resolved (members_of inp))"
    using partition_members [of ?outcomes] by (simp only: members)
  have "distinct (map added_username (successes ?outcomes) @
                  map failed_username (failures ?outcomes))"
    if "distinct (map username (members_of inp))"
  proof -
    have "mset (map added_username (successes ?outcomes) @
                map failed_username (failures ?outcomes)) =
            mset (map username (members_of inp))"
      using arg_cong [OF pairs, of "image_mset fst"]
      by (simp add: multiset.map_comp comp_def added_member_of_def failed_member_of_def
          resolved_def)
    from mset_eq_imp_distinct_iff [OF this] that show ?thesis by blast
  qed
  with added failed len sub1 sub2 pairs show ?thesis by blast
qed

theorem member_results_partition_the_input_witness:
  "fst (handler mockLibrary mockOptions mixedInput 0) = Inr () \<and>
   map resolved (members_of mixedInput) =
     [(''validuser'', Member), (''invaliduser'', Maintainer)] \<and>
   (\<exists>membersAdded membersFailed.
      reported ''membersAdded'' (trace (snd (handler mockLibrary mockOptions mixedInput 0))) =
        [OutAdded membersAdded] \<and>
      reported ''membersFailed'' (trace (snd (handler mockLibrary mockOptions mixedInput 0))) =
        [OutFailed membersFailed] \<and>
      length membersAdded + length membersFailed = 2 \<and>
      subseq (map added_member_of membersAdded)
        [(''validuser'', Member), (''invaliduser'', Maintainer)] \<and>
      subseq (map failed_member_of membersFailed)
        [(''validuser'', Member), (''invaliduser'', Maintainer)] \<and>
      mset (map added_member_of membersAdded) + mset (map failed_member_of membersFailed) =
        mset [(''validuser'', Member), (''invaliduser'', Maintainer)] \<and>
      distinct (map added_username membersAdded @ map failed_username membersFailed))"
proof -
  have h1: "fst (handler mockLibrary mockOptions mixedInput 0) = Inr ()"
    by (simp add: mixed_run)
  have h2: "map resolved (members_of mixedInput) =
              [(''validuser'', Member), (''invaliduser'', Maintainer)]"
    by (simp add: members_of_def mixedInput_def resolved_def role_or_member_def)
  have h3: "distinct (map username (members_of mixedInput))"
    and h4: "length (members_of mixedInput) = 2"
    by (simp_all add: members_of_def mixedInput_def)
  from member_results_partition_the_input [OF h1] h1 h2 h3 h4
  show ?thesis by (simp only: simp_thms)
qed

text \<open>
  \<^bold>\<open>C3\<close> says that a failed create-team call is thrown on with the prefix
  \<open>GitHub team creation failed: \<close>. The handler at an input where it is not: the
  create-team call is rejected with a \<open>Symbol\<close>, the error line of the \<open>catch\<close> block cannot
  convert it, and the caller receives that \<open>TypeError\<close>, without the prefix. No membership
  call has been made.
\<close>

theorem symbol_rejection_of_create_is_not_wrapped:
  "fst (handler symbolCreateLibrary mockOptions basicInput 0) =
     Inl (JsError ''TypeError'' ''Cannot convert a Symbol value to a string'') \<and>
   create_calls (trace (snd (handler symbolCreateLibrary mockOptions basicInput 0))) =
     [create_call ''test-org'' basicInput] \<and>
   membership_calls (trace (snd (handler symbolCreateLibrary mockOptions basicInput 0))) = []"
  by (simp add: doubles evaluation observers)

text \<open>
  \<^bold>\<open>C4, as the claim states it, fails\<close> when the token field is present and empty: the
  empty string is falsy, so the resolver goes on to the credentials provider, and the
  client is built with the provider's token.
\<close>

theorem empty_token_counterexample:
  "token emptyTokenInput = Some '''' \<and>
   credential_urls (trace (snd (handler mockLibrary mockOptions emptyTokenInput 0))) =
     [''https://github.com/test-org''] \<and>
   map auth (clients (trace (snd (handler mockLibrary mockOptions emptyTokenInput 0)))) =
     [''mock-github-token'']"
proof -
  have h1: "organization emptyTokenInput = Some ''test-org''"
    by (simp add: emptyTokenInput_def basicInput_def)
  have h2: "''test-org'' \<noteq> []" by simp
  have h3: "getOctokitOptionsForOrg mockLibrary
     (resolver_options mockOptions emptyTokenInput ''test-org'') \<lparr>world = 0, trace = []\<rparr> =
     (Inr mockClientOptions,
      \<lparr>world = 0,
       trace = [ByHost ''github.com'', GetCredentials ''https://github.com/test-org'']\<rparr>)"
    by (simp add: mock_resolver emptyTokenInput_def)
  from handler_trace(2,3) [OF h1 h2 h3] show ?thesis
    by (simp add: observers emptyTokenInput_def mockClientOptions_def)
qed

text \<open>
  \<^bold>\<open>C4, amended.\<close> When the token field is present and not empty, no credentials provider
  is asked, whether or not one is configured: the trace has no \<open>getCredentials\<close> call.
  Every client that is built has the supplied token as its \<open>auth\<close>; and when the
  organization is non-empty and \<open>github.com\<close> has an integration, exactly one client is
  built, with the supplied token and the integration's API base URL.
\<close>

theorem explicit_token_skips_the_provider:
  assumes "token inp = Some t" and "t \<noteq> []"
  shows "credential_urls (trace (snd (handler lib options inp w))) = [] \<and>
         (\<forall>octokitOptions \<in> set (clients (trace (snd (handler lib options inp w)))).
            auth octokitOptions = t) \<and>
         (\<forall>org integration.
            organization inp = Some org \<and> org \<noteq> [] \<and>
            byHost (integrations options) ''github.com'' = Some integration \<longrightarrow>
            clients (trace (snd (handler lib options inp w))) =
              [\<lparr>auth = t, baseUrl = apiBaseUrl (config integration),
                previews = [''nebula-preview''], request_timeout = 60000\<rparr>])"
proof (cases "truthy (organization inp)")
  case False
  from handler_no_organization [OF False, of lib options w] False show ?thesis
    by (auto simp: observers)
next
  case True
  then obtain org where org: "organization inp = Some org" "org \<noteq> []"
    by (auto simp: truthy_iff)
  show ?thesis
  proof (cases "byHost (integrations options) ''github.com''")
    case None
    have "getOctokitOptionsForOrg lib (resolver_options options inp org)
            \<lparr>world = w, trace = []\<rparr> =
          (Inl (JsError ''InputError'' ''No integration for host github.com''),
           \<lparr>world = w, trace = [ByHost ''github.com'']\<rparr>)"
      using resolver_no_integration [of "resolver_options options inp org" lib
          "\<lparr>world = w, trace = []\<rparr>"] None
      by (simp add: resolver_options_def)
    from handler_trace(2,3) [OF org this] None show ?thesis
      by (simp add: observers)
  next
    case (Some integration)
    have "getOctokitOptionsForOrg lib (resolver_options options inp org)
            \<lparr>world = w, trace = []\<rparr> =
          (Inr \<lparr>auth = t, baseUrl = apiBaseUrl (config integration),
                previews = [''nebula-preview''], request_timeout = 60000\<rparr>,
           \<lparr>world = w, trace = [ByHost ''github.com'']\<rparr>)"
      using resolver_explicit_token [of "resolver_options options inp org" integration t lib
          "\<lparr>world = w, trace = []\<rparr>"] Some assms
      by (simp add: resolver_options_def)
    from handler_trace(2,3) [OF org this] Some org show ?thesis
      by (simp add: observers)
  qed
qed

theorem explicit_token_skips_the_provider_witness:
  "token tokenInput = Some ''user-provided-token'' \<and> ''user-provided-token'' \<noteq> [] \<and>
   organization tokenInput = Some ''test-org'' \<and>
   byHost (integrations mockOptions) ''github.com'' =
     Some \<lparr>config = \<lparr>apiBaseUrl = Some ''https://api.github.com''\<rparr>\<rparr> \<and>
   credential_urls (trace (snd (handler mockLibrary mockOptions tokenInput 0))) = [] \<and>
   clients (trace (snd (handler mockLibrary mockOptions tokenInput 0))) =
     [\<lparr>auth = ''user-provided-token'', baseUrl = Some ''https://api.github.com'',
       previews = [''nebula-preview''], request_timeout = 60000\<rparr>]"
proof -
  have h1: "token tokenInput = Some ''user-provided-token''"
    by (simp add: tokenInput_def)
  have h2: "''user-provided-token'' \<noteq> []" by simp
  have h3: "organization tokenInput = Some ''test-org'' \<and> ''test-org'' \<noteq> [] \<and>
            byHost (integrations mockOptions) ''github.com'' =
              Some \<lparr>config = \<lparr>apiBaseUrl = Some ''https://api.github.com''\<rparr>\<rparr>"
    by (simp add: tokenInput_def basicInput_def mockOptions_def mockIntegrations_def)
  from explicit_token_skips_the_provider [OF h1 h2, of mockLibrary mockOptions 0]
  have "credential_urls (trace (snd (handler mockLibrary mockOptions tokenInput 0))) = []"
    and "clients (trace (snd (handler mockLibrary mockOptions tokenInput 0))) =
           [\<lparr>auth = ''user-provided-token'',
             baseUrl = apiBaseUrl (config \<lparr>config = \<lparr>apiBaseUrl = Some ''https://api.github.com''\<rparr>\<rparr>),
             previews = [''nebula-preview''], request_timeout = 60000\<rparr>]"
    using h3 by blast+
  with h1 h2 h3 show ?thesis by simp
qed

text \<open>
  \<^bold>\<open>C5.\<close> When \<open>organization\<close> is absent or empty the action throws an error with the
  message \<open>Organization name is required but was not provided\<close>, and it does so before
  anything else: the trace of calls is empty (no integration lookup, no credentials
  request, no client, no remote call) and the world is the one it started in.
\<close>

theorem missing_organization_fails_first:
  assumes "organization inp = None \<or> organization inp = Some ''''"
  shows "handler lib options inp w =
           (Inl (JsError ''Error'' ''Organization name is required but was not provided''),
            \<lparr>world = w, trace = []\<rparr>)"
proof -
  from assms have "\<not> truthy (organization inp)" by auto
  then show ?thesis by (rule handler_no_organization)
qed

theorem missing_organization_fails_first_witness:
  "(organization (basicInput\<lparr>organization := Some ''''\<rparr>) = None \<or>
    organization (basicInput\<lparr>organization := Some ''''\<rparr>) = Some '''') \<and>
   handler mockLibrary mockOptions (basicInput\<lparr>organization := Some ''''\<rparr>) 0 =
     (Inl (JsError ''Error'' ''Organization name is required but was not provided''),
      \<lparr>world = 0, trace = []\<rparr>)"
proof -
  have h: "organization (basicInput\<lparr>organization := Some ''''\<rparr>) = None \<or>
           organization (basicInput\<lparr>organization := Some ''''\<rparr>) = Some ''''"
    by simp
  from h missing_organization_fails_first [OF h, of mockLibrary mockOptions 0]
  show ?thesis by simp
qed

text \<open>
  \<^bold>\<open>C6\<close> says that a failure of the credentials provider reaches the caller only inside
  the \<open>Failed to authenticate with GitHub\<close> wrapper. The handler at an input where it
  does not: the provider rejects with a \<open>Symbol\<close>, the error line of the \<open>catch\<close> block
  cannot convert it, and the caller receives that \<open>TypeError\<close>, unwrapped.
\<close>

theorem symbol_rejection_of_credentials_is_not_wrapped:
  "token basicInput = None \<and>
   credential_urls (trace (snd (handler mockLibrary symbolCredentialsOptions basicInput 0))) =
     [''https://github.com/test-org''] \<and>
   fst (handler mockLibrary symbolCredentialsOptions basicInput 0) =
     Inl (JsError ''TypeError'' ''Cannot convert a Symbol value to a string'')"
  by (simp add: doubles evaluation observers)

text \<open>
  \<^bold>\<open>C7, as the claim states it, fails.\<close> With no integration for \<open>github.com\<close> the resolver
  raises an \<open>InputError\<close> with the message \<open>No integration for host github.com\<close>, but the
  handler catches it: the caller receives a plain \<open>Error\<close> with the same
  \<open>Failed to authenticate with GitHub\<close> wrapper that it receives when the credentials
  provider fails.
\<close>

theorem missing_integration_counterexample:
  "fst (getOctokitOptionsForOrg mockLibrary
          (resolver_options unconfiguredOptions basicInput ''test-org'')
          \<lparr>world = 0, trace = []\<rparr>) =
     Inl (JsError ''InputError'' ''No integration for host github.com'') \<and>
   fst (handler mockLibrary unconfiguredOptions basicInput 0) \<noteq>
     Inl (JsError ''InputError'' ''No integration for host github.com'') \<and>
   fst (handler mockLibrary unconfiguredOptions basicInput 0) =
     Inl (JsError ''Error''
       (''Failed to authenticate with GitHub for organization '' @ [CHR 0x27] @ ''test-org'' @
        [CHR 0x27] @ '': No integration for host github.com'')) \<and>
   fst (handler mockLibrary failingOptions basicInput 0) =
     Inl (JsError ''Error''
       (''Failed to authenticate with GitHub for organization '' @ [CHR 0x27] @ ''test-org'' @
        [CHR 0x27] @ '': GitHub App not installed on organization''))"
  by (simp add: handler_def getOctokitOptionsForOrg_def resolver_options_def
      unconfiguredOptions_def failingOptions_def noIntegrations_def mockIntegrations_def
      failingCredentialsProvider_def basicInput_def emit_def
      authentication_failed_message_def)

text \<open>
  \<^bold>\<open>C7, amended.\<close> With a non-empty organization and no integration for \<open>github.com\<close>, the
  action fails at once: the only call it has made is the integration lookup (no
  credentials request, no client, no remote call), the world is unchanged, and the error
  is a plain \<open>Error\<close> whose message is the authentication wrapper around
  \<open>No integration for host github.com\<close>.
\<close>

theorem missing_integration_fails_at_once:
  assumes "organization inp = Some org" and "org \<noteq> []"
      and "byHost (integrations options) ''github.com'' = None"
  shows "handler lib options inp w =
           (Inl (JsError ''Error''
              (''Failed to authenticate with GitHub for organization '' @ [CHR 0x27] @ org @
               [CHR 0x27] @ '': No integration for host github.com'')),
            \<lparr>world = w, trace = [ByHost ''github.com'']\<rparr>)"
proof -
  have "getOctokitOptionsForOrg lib (resolver_options options inp org)
          \<lparr>world = w, trace = []\<rparr> =
        (Inl (JsError ''InputError'' ''No integration for host github.com''),
         \<lparr>world = w, trace = [ByHost ''github.com'']\<rparr>)"
    using resolver_no_integration [of "resolver_options options inp org" lib
        "\<lparr>world = w, trace = []\<rparr>"] assms(3)
    by (simp add: resolver_options_def)
  from handler_auth_failed [OF assms(1,2) this] show ?thesis
    by (simp add: authentication_failed_message_def)
qed

theorem missing_integration_fails_at_once_witness:
  "organization basicInput = Some ''test-org'' \<and> ''test-org'' \<noteq> [] \<and>
   byHost (integrations unconfiguredOptions) ''github.com'' = None \<and>
   handler mockLibrary unconfiguredOptions basicInput 0 =
     (Inl (JsError ''Error''
        (''Failed to authenticate with GitHub for organization '' @ [CHR 0x27] @ ''test-org'' @
         [CHR 0x27] @ '': No integration for host github.com'')),
      \<lparr>world = 0, trace = [ByHost ''github.com'']\<rparr>)"
proof -
  have h1: "organization basicInput = Some ''test-org''"
    by (simp add: basicInput_def)
  have h2: "''test-org'' \<noteq> []" by simp
  have h3: "byHost (integrations unconfiguredOptions) ''github.com'' = None"
    by (simp add: unconfiguredOptions_def noIntegrations_def)
  from missing_integration_fails_at_once [OF h1 h2 h3, of mockLibrary 0] h1 h2 h3
  show ?thesis by simp
qed

text \<open>
  \<^bold>\<open>C8.\<close> Once the team has been created, the membership calls are made for an initial
  segment of the member list, in order (at least one when the list is not empty), and
  the \<open>team_slug\<close> of every one of them is the \<open>slug\<close> of the create-team response;
  \<open>teamName\<close> does not enter the call.
\<close>

theorem membership_calls_use_the_returned_slug:
  assumes "organization inp = Some org" and "org \<noteq> []"
      and "getOctokitOptionsForOrg lib (resolver_options options inp org)
             \<lparr>world = w, trace = []\<rparr> = (Inr octokitOptions, s1)"
      and "teams_create (Octokit lib octokitOptions) (create_call org inp) (world s1) =
             (Inr teamResponse, w2)"
  shows "prefix (membership_calls (trace (snd (handler lib options inp w))))
           (map (membership_call org (data teamResponse)) (members_of inp)) \<and>
         (members_of inp \<noteq> [] \<longrightarrow>
            membership_calls (trace (snd (handler lib options inp w))) \<noteq> []) \<and>
         (\<forall>call \<in> set (membership_calls (trace (snd (handler lib options inp w)))).
            team_slug call = slug (data teamResponse))"
proof -
  let ?s2 = "\<lparr>world = world s1, trace = trace s1 @ [NewOctokit octokitOptions]\<rparr>"
  let ?calls = "membership_calls (trace (snd (handler lib options inp w)))"
  have same: "snd (handler lib options inp w) =
                snd (create_team (Octokit lib octokitOptions) org inp ?s2)"
    using handler_authenticated [OF assms(1-3)]
    by (auto split: prod.splits sum.splits)
  have created: "teams_create (Octokit lib octokitOptions) (create_call org inp) (world ?s2) =
                   (Inr teamResponse, w2)"
    using assms(4) by simp
  from create_team_created_trace [OF created]
  obtain n outs where n: "n \<le> length (members_of inp)" "members_of inp \<noteq> [] \<longrightarrow> 0 < n"
    and outs: "outs = [] \<or> (\<exists>memberResults. outs = set_outputs (data teamResponse) memberResults)"
    and tr: "trace (snd (create_team (Octokit lib octokitOptions) org inp ?s2)) =
               trace ?s2 @ TeamsCreate (create_call org inp) #
                 map (\<lambda>m. AddOrUpdateMembership (membership_call org (data teamResponse) m))
                   (take n (members_of inp)) @ outs"
    by blast
  have "membership_calls outs = []"
    using outs by (auto simp: observers observers_outputs)
  then have calls: "?calls = take n (map (membership_call org (data teamResponse)) (members_of inp))"
    using resolver_quiet(3) [OF assms(3)]
    by (simp add: same tr observers membership_calls_take)
  have "prefix ?calls (map (membership_call org (data teamResponse)) (members_of inp))"
    unfolding calls by (rule take_is_prefix)
  moreover have "members_of inp \<noteq> [] \<longrightarrow> ?calls \<noteq> []"
    unfolding calls using n by auto
  moreover have "\<forall>call \<in> set ?calls. team_slug call = slug (data teamResponse)"
    unfolding calls by (auto dest!: in_set_takeD simp: membership_call_def)
  ultimately show ?thesis by blast
qed

theorem membership_calls_use_the_returned_slug_witness:
  "organization mixedInput = Some ''test-org'' \<and> ''test-org'' \<noteq> [] \<and>
   getOctokitOptionsForOrg mockLibrary
     (resolver_options mockOptions mixedInput ''test-org'') \<lparr>world = 0, trace = []\<rparr> =
     (Inr mockClientOptions,
      \<lparr>world = 0,
       trace = [ByHost ''github.com'', GetCredentials ''https://github.com/test-org'']\<rparr>) \<and>
   teams_create (Octokit mockLibrary mockClientOptions)
     (create_call ''test-org'' mixedInput) 0 = (Inr \<lparr>data = mockTeam\<rparr>, 0) \<and>
   teamName mixedInput = ''team-mixed-results'' \<and> slug mockTeam = ''test-team'' \<and>
   map team_slug
     (membership_calls (trace (snd (handler mockLibrary mockOptions mixedInput 0)))) =
     [''test-team'', ''test-team'']"
proof -
  have h1: "organization mixedInput = Some ''test-org''"
    by (simp add: mixedInput_def)
  have h2: "''test-org'' \<noteq> []" by simp
  have h3: "getOctokitOptionsForOrg mockLibrary
     (resolver_options mockOptions mixedInput ''test-org'') \<lparr>world = 0, trace = []\<rparr> =
     (Inr mockClientOptions,
      \<lparr>world = 0,
       trace = [ByHost ''github.com'', GetCredentials ''https://github.com/test-org'']\<rparr>)"
    by (simp add: mock_resolver mixedInput_def)
  have h4: "teams_create (Octokit mockLibrary mockClientOptions)
     (create_call ''test-org'' mixedInput)
     (world \<lparr>world = 0::nat,
       trace = [ByHost ''github.com'', GetCredentials ''https://github.com/test-org'']\<rparr>) =
     (Inr \<lparr>data = mockTeam\<rparr>, 0)"
    by (simp add: mock_created)
  have h5: "teamName mixedInput = ''team-mixed-results'' \<and> slug mockTeam = ''test-team''"
    by (simp add: mixedInput_def mockTeam_def)
  let ?calls = "membership_calls (trace (snd (handler mockLibrary mockOptions mixedInput 0)))"
  have two: "length ?calls = Suc (Suc 0)"
    by (simp add: mixed_run observers)
  from membership_calls_use_the_returned_slug [OF h1 h2 h3 h4] h5
  have slugs: "\<forall>call \<in> set ?calls. team_slug call = ''test-team''"
    by simp
  from two obtain a b where "?calls = [a, b]"
    by (auto simp: length_Suc_conv)
  with slugs have "map team_slug ?calls = [''test-team'', ''test-team'']"
    by simp
  with h1 h2 h3 h4 h5 show ?thesis by simp
qed

text \<open>
  \<^bold>\<open>C9.\<close> With an explicit token and no integration for \<open>github.com\<close> the action fails,
  and it builds no client and makes no create-team call. When the organization is
  non-empty, the failure is that of the integration lookup, which is the only call made:
  the lookup comes before the token is looked at.
\<close>

theorem explicit_token_needs_an_integration:
  assumes "token inp = Some t"
      and "byHost (integrations options) ''github.com'' = None"
  shows "(\<exists>message. fst (handler lib options inp w) = Inl (JsError ''Error'' message)) \<and>
         clients (trace (snd (handler lib options inp w))) = [] \<and>
         create_calls (trace (snd (handler lib options inp w))) = [] \<and>
         (\<forall>org. organization inp = Some org \<and> org \<noteq> [] \<longrightarrow>
            handler lib options inp w =
              (Inl (JsError ''Error''
                 (''Failed to authenticate with GitHub for organization '' @ [CHR 0x27] @ org @
                  [CHR 0x27] @ '': No integration for host github.com'')),
               \<lparr>world = w, trace = [ByHost ''github.com'']\<rparr>))"
proof (cases "truthy (organization inp)")
  case False
  from handler_no_organization [OF False, of lib options w] False
  show ?thesis by (auto simp: observers)
next
  case True
  then obtain org where org: "organization inp = Some org" "org \<noteq> []"
    by (auto simp: truthy_iff)
  have "getOctokitOptionsForOrg lib (resolver_options options inp org)
          \<lparr>world = w, trace = []\<rparr> =
        (Inl (JsError ''InputError'' ''No integration for host github.com''),
         \<lparr>world = w, trace = [ByHost ''github.com'']\<rparr>)"
    using resolver_no_integration [of "resolver_options options inp org" lib
        "\<lparr>world = w, trace = []\<rparr>"] assms(2)
    by (simp add: resolver_options_def)
  from handler_auth_failed [OF org this] org show ?thesis
    by (simp add: authentication_failed_message_def observers)
qed

theorem explicit_token_needs_an_integration_witness:
  "token tokenInput = Some ''user-provided-token'' \<and>
   byHost (integrations unconfiguredOptions) ''github.com'' = None \<and>
   organization tokenInput = Some ''test-org'' \<and>
   (\<exists>message. fst (handler mockLibrary unconfiguredOptions tokenInput 0) =
      Inl (JsError ''Error'' message)) \<and>
   clients (trace (snd (handler mockLibrary unconfiguredOptions tokenInput 0))) = [] \<and>
   create_calls (trace (snd (handler mockLibrary unconfiguredOptions tokenInput 0))) = [] \<and>
   handler mockLibrary unconfiguredOptions tokenInput 0 =
     (Inl (JsError ''Error''
        (''Failed to authenticate with GitHub for organization '' @ [CHR 0x27] @ ''test-org'' @
         [CHR 0x27] @ '': No integration for host github.com'')),
      \<lparr>world = 0, trace = [ByHost ''github.com'']\<rparr>)"
proof -
  have h1: "token tokenInput = Some ''user-provided-token''"
    by (simp add: tokenInput_def)
  have h2: "byHost (integrations unconfiguredOptions) ''github.com'' = None"
    by (simp add: unconfiguredOptions_def noIntegrations_def)
  have h3: "organization tokenInput = Some ''test-org''"
    by (simp add: tokenInput_def basicInput_def)
  from explicit_token_needs_an_integration [OF h1 h2, of mockLibrary 0] h1 h2 h3
  show ?thesis by (simp add: observers)
qed

text \<open>
  \<^bold>\<open>C10, as the claim states it, fails\<close> in its second part: the configuration does direct
  the invocation at another host. The integration found for \<open>github.com\<close> gives the API
  base URL of the client, and with it the host of the create-team and membership calls.
\<close>

theorem configured_api_host_counterexample:
  "fst (handler mockLibrary redirectedOptions basicInput 0) = Inr () \<and>
   host_lookups (trace (snd (handler mockLibrary redirectedOptions basicInput 0))) =
     [''github.com''] \<and>
   map baseUrl (clients (trace (snd (handler mockLibrary redirectedOptions basicInput 0)))) =
     [Some ''https://github.enterprise.com/api/v3'']"
  by (simp add: doubles evaluation observers)

text \<open>
  \<^bold>\<open>C10, amended.\<close> Whatever the library, the action's options, the input and the world:
  every integration lookup in the trace is for the host \<open>github.com\<close>, and every URL handed
  to a credentials provider is \<open>https://github.com/\<close> followed by \<open>encodeURIComponent\<close> of
  the organization, in which none of the characters \<open>/ ? # @ :\<close> and backslash is left,
  so that the URL names the host \<open>github.com\<close>. The API base URL of every client that is
  built is the one configured in the integration found for \<open>github.com\<close>, whatever host
  it names.
\<close>

theorem github_com_is_fixed_and_the_api_base_url_is_configured:
  "set (host_lookups (trace (snd (handler lib options inp w)))) \<subseteq> {''github.com''} \<and>
   (\<forall>url \<in> set (credential_urls (trace (snd (handler lib options inp w)))).
      \<exists>org. organization inp = Some org \<and>
            url = ''https://github.com/'' @ encodeURIComponent org \<and>
            set (encodeURIComponent org) \<inter> set (''/?#@:'' @ [CHR 0x5C]) = {}) \<and>
   (\<forall>octokitOptions \<in> set (clients (trace (snd (handler lib options inp w)))).
      \<exists>integration. byHost (integrations options) ''github.com'' = Some integration \<and>
                    baseUrl octokitOptions = apiBaseUrl (config integration))"
proof (cases "truthy (organization inp)")
  case False
  from handler_no_organization [OF False, of lib options w] show ?thesis
    by (simp add: observers)
next
  case True
  then obtain org where org: "organization inp = Some org" "org \<noteq> []"
    by (auto simp: truthy_iff)
  obtain r s1 where resolved:
    "getOctokitOptionsForOrg lib (resolver_options options inp org)
       \<lparr>world = w, trace = []\<rparr> = (r, s1)"
    by (cases "getOctokitOptionsForOrg lib (resolver_options options inp org)
                 \<lparr>world = w, trace = []\<rparr>")
  from resolver_trace [of lib "resolver_options options inp org" "\<lparr>world = w, trace = []\<rparr>"]
    resolved
  obtain evs where tr: "trace s1 = ByHost ''github.com'' # evs"
    and evs: "evs = [] \<or>
          evs = [GetCredentials (''https://github.com/'' @ encodeURIComponent org)] \<or>
          evs = [FromIntegrations,
                 GetCredentials (''https://github.com/'' @ encodeURIComponent org)]"
    by (auto simp: resolver_options_def)
  from evs have hosts: "host_lookups (trace s1) = [''github.com'']"
    and urls: "set (credential_urls (trace s1)) \<subseteq>
                 {''https://github.com/'' @ encodeURIComponent org}"
    unfolding tr by (auto simp: observers)
  have api: "\<exists>integration. byHost (integrations options) ''github.com'' = Some integration \<and>
               baseUrl octokitOptions = apiBaseUrl (config integration)"
    if "octokitOptions \<in> set (clients (trace (snd (handler lib options inp w))))"
    for octokitOptions
  proof -
    from that handler_trace(3) [OF org resolved] have "r = Inr octokitOptions"
      by (cases r) auto
    from resolver_baseUrl [OF resolved [unfolded this]] show ?thesis
      by (simp add: resolver_options_def)
  qed
  from hosts urls handler_trace(1,2) [OF org resolved] org encodeURIComponent_escapes [of org]
  have "set (host_lookups (trace (snd (handler lib options inp w)))) \<subseteq> {''github.com''}"
    and "\<forall>url \<in> set (credential_urls (trace (snd (handler lib options inp w)))).
           \<exists>org. organization inp = Some org \<and>
                 url = ''https://github.com/'' @ encodeURIComponent org \<and>
                 set (encodeURIComponent org) \<inter> set (''/?#@:'' @ [CHR 0x5C]) = {}"
    by auto
  with api show ?thesis by blast
qed

theorem github_com_is_fixed_and_the_api_base_url_is_configured_witness:
  "host_lookups (trace (snd (handler mockLibrary mockOptions mixedInput 0))) =
     [''github.com''] \<and>
   credential_urls (trace (snd (handler mockLibrary mockOptions mixedInput 0))) =
     [''https://github.com/test-org''] \<and>
   clients (trace (snd (handler mockLibrary mockOptions mixedInput 0))) = [mockClientOptions] \<and>
   (\<exists>org. organization mixedInput = Some org \<and>
          ''https://github.com/test-org'' = ''https://github.com/'' @ encodeURIComponent org \<and>
          set (encodeURIComponent org) \<inter> set (''/?#@:'' @ [CHR 0x5C]) = {}) \<and>
   (\<exists>integration. byHost (integrations mockOptions) ''github.com'' = Some integration \<and>
                  baseUrl mockClientOptions = apiBaseUrl (config integration))"
proof -
  let ?trace = "trace (snd (handler mockLibrary mockOptions mixedInput 0))"
  have hosts: "host_lookups ?trace = [''github.com'']"
    and urls: "credential_urls ?trace = [''https://github.com/test-org'']"
    and built: "clients ?trace = [mockClientOptions]"
    by (simp_all add: mixed_run observers)
  from urls have url: "''https://github.com/test-org'' \<in> set (credential_urls ?trace)"
    by simp
  from built have client: "mockClientOptions \<in> set (clients ?trace)"
    by simp
  note fact = github_com_is_fixed_and_the_api_base_url_is_configured
                [of mockLibrary mockOptions mixedInput 0]
  from fact url
  have "\<exists>org. organization mixedInput = Some org \<and>
          ''https://github.com/test-org'' = ''https://github.com/'' @ encodeURIComponent org \<and>
          set (encodeURIComponent org) \<inter> set (''/?#@:'' @ [CHR 0x5C]) = {}"
    by blast
  moreover from fact client
  have "\<exists>integration. byHost (integrations mockOptions) ''github.com'' = Some integration \<and>
          baseUrl mockClientOptions = apiBaseUrl (config integration)"
    by blast
  ultimately show ?thesis using hosts urls built by blast
qed

end
